theory Spec2Isabelle
  imports Main
begin

section \<open>The conversation agent of \<^verbatim>\<open>src/main.py\<close>\<close>

text \<open>
  A shallow embedding of the command-line chat client: the class
  \<^verbatim>\<open>GeminiChatAgent\<close> (its constructor, \<^verbatim>\<open>add_user_message\<close>,
  \<^verbatim>\<open>add_model_message\<close>, \<^verbatim>\<open>generate_response\<close>) and the function
  \<^verbatim>\<open>main\<close>. Mutation of \<^verbatim>\<open>self\<close> is explicit state passing; what the program
  does to the outside (standard output, the logger, the network) is recorded in a
  \<open>world\<close> that every operation takes and returns. Python exceptions are values of
  the type \<open>exception\<close>, and an operation that can raise returns a sum with the
  exception on the left.

  A Python \<^verbatim>\<open>str\<close> is modelled by the list of the bytes of its UTF-8 encoding.
  Exceptions outside Python's class \<^verbatim>\<open>Exception\<close> (a keyboard interrupt, say), which
  no handler of the program catches, are not modelled; nor are failures of the standard
  streams to decode or encode a character.
\<close>

subsection \<open>Values\<close>

text \<open>
  An entry of \<^verbatim>\<open>conversation_history\<close> is the dictionary
  \<^verbatim>\<open>{"role": r, "parts": [{"text": m}]}\<close>.
\<close>

datatype part_dict = Text string

record message =
  role :: string
  parts :: "part_dict list"

text \<open>
  The objects the provider returns are probed with \<^verbatim>\<open>hasattr\<close> before they are read:
  an attribute is missing, or present with a value. A present attribute may hold
  \<^verbatim>\<open>None\<close>, which is the \<open>None\<close> of the option type below.
\<close>

datatype 'a attr = Missing | Attr 'a

datatype part = Part "string option attr"

datatype content = Content "part list option attr"

text \<open>
  The URL-context metadata is an object of the provider's library. The program only tests
  it for truth and formats it into a string: the model keeps the string that formatting
  yields.
\<close>

datatype url_context_metadata = UrlContextMetadata string

datatype candidate = Candidate "content option attr" "url_context_metadata option attr"

datatype response = Response "candidate list option attr"

datatype exception =
    ValueError string
  | TypeError string
  | EOFError string
  | OtherException string

fun str :: "exception \<Rightarrow> string" where
  "str (ValueError m) = m"
| "str (TypeError m) = m"
| "str (EOFError m) = m"
| "str (OtherException m) = m"

datatype outcome = Raises exception | Returns "response option"

datatype tool = Tool_url_context | Tool_google_search

record generate_content_config =
  tools :: "tool list"
  response_modalities :: "string list"

record request =
  model :: string
  contents :: "message list"
  config :: generate_content_config

text \<open>
  The completion provider is outside the program. One call of it is a function from the
  request to what the call does: raise, or return a response (possibly \<^verbatim>\<open>None\<close>).
  Every call of a session sends a longer history than the one before, so a function of
  the request can answer each call of a session differently.
\<close>

type_synonym provider = "request \<Rightarrow> outcome"

datatype level = INFO | ERROR

record world =
  stdout :: "string list"
  logged :: "(level \<times> string) list"
  network :: "request list"

datatype client = Client string

record agent =
  client :: client
  model_id :: string
  wiki :: string
  url_context_tool :: tool
  google_search_tool :: tool
  conversation_history :: "message list"

subsection \<open>Effects\<close>

definition logger_info :: "string \<Rightarrow> world \<Rightarrow> world" where
  "logger_info msg w = w\<lparr>logged := logged w @ [(INFO, msg)]\<rparr>"

definition logger_error :: "string \<Rightarrow> world \<Rightarrow> world" where
  "logger_error msg w = w\<lparr>logged := logged w @ [(ERROR, msg)]\<rparr>"

text \<open>
  \<^verbatim>\<open>print(s)\<close> writes \<open>s\<close> and a newline; \<^verbatim>\<open>print(s, end="")\<close> writes \<open>s\<close> alone.
  Each write is one element of \<open>stdout\<close>.
\<close>

definition print_line :: "string \<Rightarrow> world \<Rightarrow> world" where
  "print_line s w = w\<lparr>stdout := stdout w @ [s @ ''\<newline>'']\<rparr>"

definition print_end :: "string \<Rightarrow> world \<Rightarrow> world" where
  "print_end s w = w\<lparr>stdout := stdout w @ [s]\<rparr>"

text \<open>
  \<^verbatim>\<open>client.models.generate_content\<close> is the one outbound call of the program: the request
  goes on the network, and the provider's answer comes back.
\<close>

definition generate_content :: "provider \<Rightarrow> request \<Rightarrow> world \<Rightarrow> outcome \<times> world" where
  "generate_content provider req w = (provider req, w\<lparr>network := network w @ [req]\<rparr>)"

subsection \<open>The class \<^verbatim>\<open>GeminiChatAgent\<close>\<close>

definition add_user_message :: "agent \<Rightarrow> string \<Rightarrow> message \<times> agent" where
  "add_user_message self message =
     (let user_message = \<lparr>role = ''user'', parts = [Text message]\<rparr>
      in (user_message,
          self\<lparr>conversation_history := conversation_history self @ [user_message]\<rparr>))"

definition add_model_message :: "agent \<Rightarrow> string \<Rightarrow> message \<times> agent" where
  "add_model_message self message =
     (let model_message = \<lparr>role = ''model'', parts = [Text message]\<rparr>
      in (model_message,
          self\<lparr>conversation_history := conversation_history self @ [model_message]\<rparr>))"

definition initial_instructions :: "string \<Rightarrow> string" where
  \<open>initial_instructions wiki_url =
     ''\<newline>'' @
     ''        [INSTRUCTIONS FOR ASSISTANT]\<newline>'' @
     ''        # You are a helpful assistant specializing in Project Diablo 2.\<newline>'' @
     ''        # You can access PD2 wiki information at '' @
     wiki_url @
     ''.\<newline>'' @
     ''        # When a user asks a question about Project Diablo 2 game mechanics, items, skills, crafting recipes, or character builds, you must first attempt to find the answer by browsing the official Project Diablo 2 wiki (https://wiki.projectdiablo2.com/wiki/Main_Page). Only use the general search tool if browsing the wiki directly doesn't yield relevant results or if the query is broader than specific game data.\<newline>'' @
     ''        ## If you have a result but not from project diablo 2 wikis, nor the internet, try check https://wiki.projectdiablo2.com/wiki/Patch_Notes to confirm (example: spirit rw sword have +1 all skills instead 2)\<newline>'' @
     ''        ## The user may provide character URLs or guide URLs in the conversation.\<newline>'' @
     ''        ## Use this information to help the user with their Diablo 2 character.\<newline>'' @
     ''        ## When asked about skill damage for a skill, if the synergy details (level, all synergies or somes) are not specified in the user's query, I must ask the user to "Please provide the level of relevant synergies if you'd like a calculation based on them." before attempting to calculate the total damage.\<newline>'' @
     ''        1.  **Prioritize the Project Diablo 2 Wiki:** My first point of reference will always be the official PD2 wiki ([https://wiki.projectdiablo2.com/wiki/Main_Page](https://wiki.projectdiablo2.com/wiki/Main_Page)). I'll attempt to find the specific item directly there.\<newline>'' @
     ''        2.  **Use the `browse` tool comprehensively:** Once I identify a relevant wiki URL (or any other reliable PD2 source), I will use the `browse` tool to read its content.\<newline>'' @
     ''        3.  **Actively identify variable stats:** While browsing, I will specifically look for:\<newline>'' @
     ''            *   Numbers presented as a range (e.g., `[X-Y]`, `X-Y`).\<newline>'' @
     ''            *   Keywords like "variable," "random," "min/max," "up to," "can roll."\<newline>'' @
     ''            *   Any stat that isn't a fixed, single value.\<newline>'' @
     ''        4.  **Report all relevant modifiers and their ranges:** My response will include:\<newline>'' @
     ''            *   The item's name and type.\<newline>'' @
     ''            *   All significant modifiers, clearly indicating which ones are variable and their full possible range.\<newline>'' @
     ''            *   Any crucial base stats (e.g., defense, block, socket potential).\<newline>'' @
     ''            *   Any other unique properties that define the item.\<newline>'' @
     ''        5.  **Cite the source:** I will always provide the direct URL to the wiki page or other source from which the information was obtained.\<newline>'' @
     ''        6.  **Confirm (if necessary):** If the information found is ambiguous, seems outdated, or if a user provides a specific detail that contradicts what I found, I will use `concise_search` with targeted queries (e.g., "PD2 [item name] patch notes") or check the Project Diablo 2 patch notes wiki ([https://wiki.projectdiablo2.com/wiki/Patch_Notes](https://wiki.projectdiablo2.com/wiki/Patch_Notes)) to confirm the most current statistics.\<newline>'' @
     ''        Please respond to the following message from the user.\<newline>'' @
     ''        [END INSTRUCTIONS]\<newline>'' @
     ''        ''\<close>

definition acknowledgement :: string where
  \<open>acknowledgement =
     ''I understand. I'm a Project Diablo 2 assistant and will help with any questions about the game, characters, builds, or items. What would you like to know?''\<close>

text \<open>
  The constructor. \<^verbatim>\<open>API_KEY\<close> is what \<^verbatim>\<open>os.getenv\<close> gave: \<^verbatim>\<open>None\<close> or a string;
  \<^verbatim>\<open>not API_KEY\<close> holds for \<^verbatim>\<open>None\<close> and for the empty string.
\<close>

definition init :: "string option \<Rightarrow> world \<Rightarrow> (exception + agent) \<times> world" where
  "init API_KEY w =
     (case API_KEY of
        None \<Rightarrow>
          (Inl (ValueError ''GOOGLE_API_KEY not found. Please set it in your .env file.''),
           logger_error ''GOOGLE_API_KEY not found in environment variables.'' w)
      | Some key \<Rightarrow>
          if key = [] then
            (Inl (ValueError ''GOOGLE_API_KEY not found. Please set it in your .env file.''),
             logger_error ''GOOGLE_API_KEY not found in environment variables.'' w)
          else
            (let self0 = \<lparr>client = Client key,
                          model_id = ''gemini-2.5-flash-preview-05-20'',
                          wiki = ''https://pd2reawakening.com/wiki/index.php?title=Main_Page'',
                          url_context_tool = Tool_url_context,
                          google_search_tool = Tool_google_search,
                          conversation_history = []\<rparr>;
                 self1 = snd (add_user_message self0 (initial_instructions (wiki self0)));
                 self2 = snd (add_model_message self1 acknowledgement)
             in (Inr self2, w)))"

text \<open>
  The loop over \<^verbatim>\<open>candidate.content.parts\<close>: a part without the attribute
  \<^verbatim>\<open>text\<close> is skipped; a part whose \<^verbatim>\<open>text\<close> is \<^verbatim>\<open>None\<close> makes
  \<^verbatim>\<open>response_text += part.text\<close> raise a \<^verbatim>\<open>TypeError\<close>.
\<close>

fun extract_text :: "string \<Rightarrow> part list \<Rightarrow> exception + string" where
  "extract_text response_text [] = Inr response_text"
| "extract_text response_text (Part Missing # ps) = extract_text response_text ps"
| \<open>extract_text response_text (Part (Attr None) # ps) =
     Inl (TypeError ''can only concatenate str (not "NoneType") to str'')\<close>
| "extract_text response_text (Part (Attr (Some t)) # ps) = extract_text (response_text @ t) ps"

text \<open>The citation block: \<^verbatim>\<open>f"\n\n[URL Sources: {candidate.url_context_metadata}]"\<close>.\<close>

definition url_sources :: "string \<Rightarrow> string" where
  "url_sources m = ''\<newline>\<newline>[URL Sources: '' @ m @ '']''"

text \<open>An early \<^verbatim>\<open>return error_msg\<close> of the response processing, after its \<^verbatim>\<open>logger.error\<close>.\<close>

definition return_error :: "string \<Rightarrow> agent \<Rightarrow> world \<Rightarrow> (exception + string) \<times> agent \<times> world" where
  "return_error error_msg self w = (Inr error_msg, self, logger_error error_msg w)"

text \<open>
  The processing of the response inside the \<^verbatim>\<open>try\<close> block (lines 113 to 144): the three
  presence checks, the extraction, \<^verbatim>\<open>add_model_message\<close>, and the citation block.
\<close>

definition process_response ::
  "response option \<Rightarrow> agent \<Rightarrow> world \<Rightarrow> (exception + string) \<times> agent \<times> world" where
  "process_response resp self w =
     (case resp of
        Some (Response (Attr (Some (cand # _)))) \<Rightarrow>
          (case cand of
             Candidate (Attr (Some cont)) metadata \<Rightarrow>
               (case cont of
                  Content (Attr (Some (p # ps))) \<Rightarrow>
                    (case extract_text [] (p # ps) of
                       Inl e \<Rightarrow> (Inl e, self, w)
                     | Inr response_text \<Rightarrow>
                         (let self1 = snd (add_model_message self response_text) in
                          case metadata of
                            Attr (Some (UrlContextMetadata m)) \<Rightarrow>
                              (Inr (response_text @ url_sources m),
                               self1,
                               logger_info (''URL context metadata: '' @ m) w)
                          | _ \<Rightarrow> (Inr response_text, self1, w)))
                | _ \<Rightarrow> return_error ''No parts in content'' self w)
           | _ \<Rightarrow> return_error ''No content in response candidate'' self w)
      | _ \<Rightarrow> return_error ''No valid response received from Gemini API'' self w)"

text \<open>
  The \<^verbatim>\<open>try\<close> block of \<^verbatim>\<open>generate_response\<close>: the call of the provider with the
  model, the whole history and the two tools, then the processing.
\<close>

definition request_of :: "agent \<Rightarrow> request" where
  "request_of self =
     \<lparr>model = model_id self,
      contents = conversation_history self,
      config = \<lparr>tools = [url_context_tool self, google_search_tool self],
                response_modalities = [''TEXT'']\<rparr>\<rparr>"

definition generate_response_try ::
  "provider \<Rightarrow> agent \<Rightarrow> world \<Rightarrow> (exception + string) \<times> agent \<times> world" where
  "generate_response_try provider self w =
     (let w1 = logger_info ''Sending request to Gemini API...'' w;
          (result, w2) = generate_content provider (request_of self) w1
      in case result of
           Raises e \<Rightarrow> (Inl e, self, w2)
         | Returns resp \<Rightarrow>
             process_response resp self (logger_info ''Response received from Gemini API'' w2))"

text \<open>
  \<^verbatim>\<open>generate_response\<close>: the user message is appended before the \<^verbatim>\<open>try\<close>; the handler
  \<^verbatim>\<open>except Exception\<close> turns every exception of the block into a returned string.
\<close>

definition generate_response ::
  "provider \<Rightarrow> agent \<Rightarrow> string \<Rightarrow> world \<Rightarrow> string \<times> agent \<times> world" where
  "generate_response provider self user_message w =
     (let self1 = snd (add_user_message self user_message) in
      case generate_response_try provider self1 w of
        (Inr response_text, self2, w2) \<Rightarrow> (response_text, self2, w2)
      | (Inl e, self2, w2) \<Rightarrow>
          (let error_msg = ''Error generating response: '' @ str e
           in (error_msg, self2, logger_error error_msg w2)))"

subsection \<open>The function \<^verbatim>\<open>main\<close>\<close>

text \<open>
  \<^verbatim>\<open>str.strip()\<close> removes the whitespace characters at both ends of the string: the
  characters for which \<^verbatim>\<open>str.isspace()\<close> holds. They are the code points U+0009 to
  U+000D, U+001C to U+0020, U+0085, U+00A0, U+1680, U+2000 to U+200A, U+2028, U+2029,
  U+202F, U+205F and U+3000, listed here by their UTF-8 encodings of one, two or three
  bytes.
\<close>

definition whitespace :: "string list" where
  "whitespace =
     [[CHR 0x09], [CHR 0x0A], [CHR 0x0B], [CHR 0x0C], [CHR 0x0D],
      [CHR 0x1C], [CHR 0x1D], [CHR 0x1E], [CHR 0x1F], [CHR 0x20],
      [CHR 0xC2, CHR 0x85], [CHR 0xC2, CHR 0xA0],
      [CHR 0xE1, CHR 0x9A, CHR 0x80],
      [CHR 0xE2, CHR 0x80, CHR 0x80], [CHR 0xE2, CHR 0x80, CHR 0x81],
      [CHR 0xE2, CHR 0x80, CHR 0x82], [CHR 0xE2, CHR 0x80, CHR 0x83],
      [CHR 0xE2, CHR 0x80, CHR 0x84], [CHR 0xE2, CHR 0x80, CHR 0x85],
      [CHR 0xE2, CHR 0x80, CHR 0x86], [CHR 0xE2, CHR 0x80, CHR 0x87],
      [CHR 0xE2, CHR 0x80, CHR 0x88], [CHR 0xE2, CHR 0x80, CHR 0x89],
      [CHR 0xE2, CHR 0x80, CHR 0x8A],
      [CHR 0xE2, CHR 0x80, CHR 0xA8], [CHR 0xE2, CHR 0x80, CHR 0xA9],
      [CHR 0xE2, CHR 0x80, CHR 0xAF],
      [CHR 0xE2, CHR 0x81, CHR 0x9F],
      [CHR 0xE3, CHR 0x80, CHR 0x80]]"

text \<open>
  Removing, as long as there is one, a leading byte sequence of the list \<open>ws\<close> (sequences
  of at most three bytes). In a UTF-8 string the bytes of a character are never the
  beginning or the end of the bytes of another, so this removes the leading characters
  of \<open>ws\<close>, and on the reversed string the trailing ones.
\<close>

fun strip_leading :: "string list \<Rightarrow> string \<Rightarrow> string" where
  "strip_leading ws (a # b # c # s) =
     (if [a] \<in> set ws then strip_leading ws (b # c # s)
      else if [a, b] \<in> set ws then strip_leading ws (c # s)
      else if [a, b, c] \<in> set ws then strip_leading ws s
      else a # b # c # s)"
| "strip_leading ws [a, b] =
     (if [a] \<in> set ws then strip_leading ws [b]
      else if [a, b] \<in> set ws then []
      else [a, b])"
| "strip_leading ws [a] = (if [a] \<in> set ws then [] else [a])"
| "strip_leading ws [] = []"

definition strip :: "string \<Rightarrow> string" where
  "strip s = rev (strip_leading (map rev whitespace) (rev (strip_leading whitespace s)))"

text \<open>
  \<^verbatim>\<open>str.lower()\<close>. The letters \<open>A\<close> to \<open>Z\<close> are mapped to \<open>a\<close> to \<open>z\<close>; every other
  byte is kept. Python also maps the cased characters outside ASCII. The program uses
  the result only to compare it with the three words \<open>exit\<close>, \<open>quit\<close> and \<open>bye\<close>, and
  that comparison is the same for both mappings: the one character outside ASCII whose
  lower case lies in ASCII is U+212A (the Kelvin sign, mapped to \<open>k\<close>), and no \<open>k\<close> is
  in the three words; so the lower-cased string is one of the words only when the
  string is in ASCII.
\<close>

definition lower_char :: "char \<Rightarrow> char" where
  "lower_char c =
     (case map_of (zip ''ABCDEFGHIJKLMNOPQRSTUVWXYZ'' ''abcdefghijklmnopqrstuvwxyz'') c of
        Some d \<Rightarrow> d
      | None \<Rightarrow> c)"

definition lower :: "string \<Rightarrow> string" where
  "lower s = map lower_char s"

text \<open>
  The \<^verbatim>\<open>while True\<close> loop of \<^verbatim>\<open>main\<close>, over the lines that standard input still
  holds. \<^verbatim>\<open>input\<close> writes its prompt and returns the next line without its newline; at
  the end of the input it raises \<^verbatim>\<open>EOFError\<close>. The loop returns the lines it left unread.
\<close>

fun conversation_loop ::
  "provider \<Rightarrow> string list \<Rightarrow> agent \<Rightarrow> world \<Rightarrow> (exception + unit) \<times> agent \<times> world \<times> string list" where
  "conversation_loop provider [] self w =
     (Inl (EOFError ''EOF when reading a line''), self, print_end ''\<newline>You: '' w, [])"
| "conversation_loop provider (line # rest) self w =
     (let w1 = print_end ''\<newline>You: '' w;
          user_input = strip line
      in if lower user_input \<in> set [''exit'', ''quit'', ''bye''] then
           (Inr (), self,
            print_line ''\<newline>Assistant: Thanks for chatting! Good luck in your adventures!'' w1,
            rest)
         else
           (let w2 = print_end ''\<newline>Assistant: '' w1;
                (resp, self1, w3) = generate_response provider self user_input w2
            in conversation_loop provider rest self1 (print_line resp w3)))"

text \<open>The two handlers of \<^verbatim>\<open>main\<close>: \<^verbatim>\<open>except ValueError\<close>, then \<^verbatim>\<open>except Exception\<close>.\<close>

definition main_except :: "exception \<Rightarrow> world \<Rightarrow> world" where
  "main_except e w =
     (case e of
        ValueError m \<Rightarrow>
          print_line ''Please set up your GOOGLE_API_KEY in the .env file.''
            (print_line (''Error: '' @ m) w)
      | _ \<Rightarrow> print_line (''An unexpected error occurred: '' @ str e) w)"

text \<open>
  \<^verbatim>\<open>main\<close>, given the value of \<^verbatim>\<open>API_KEY\<close>, the provider and the lines of standard
  input. It returns the agent (if one was constructed), the world and the unread lines.
\<close>

definition main ::
  "string option \<Rightarrow> provider \<Rightarrow> string list \<Rightarrow> world \<Rightarrow> agent option \<times> world \<times> string list" where
  \<open>main API_KEY provider stdin w =
     (let w1 = print_line ''Welcome to the Project Diablo 2 Chat Assistant!'' w;
          w2 = print_line ''Type 'exit' or 'quit' to end the conversation.'' w1;
          w3 = print_line (replicate 50 CHR ''-'') w2;
          w4 = print_line ''Tip: You can provide character URLs or guide URLs in your messages.'' w3;
          w5 = print_line (replicate 50 CHR ''-'') w4
      in case init API_KEY w5 of
           (Inl e, w6) \<Rightarrow> (None, main_except e w6, stdin)
         | (Inr self, w6) \<Rightarrow>
             (let w7 = print_line ''Assistant: How can I help with your Project Diablo 2 character today?'' w6
              in case conversation_loop provider stdin self w7 of
                   (Inl e, self1, w8, rest) \<Rightarrow> (Some self1, main_except e w8, rest)
                 | (Inr u, self1, w8, rest) \<Rightarrow> (Some self1, w8, rest)))\<close>

text \<open>
  The script calls \<^verbatim>\<open>main()\<close> as its last statement. \<^verbatim>\<open>main\<close> handles every exception
  of the model, so the interpreter ends with exit status 0.
\<close>

definition script :: "string option \<Rightarrow> provider \<Rightarrow> string list \<Rightarrow> world \<Rightarrow> int \<times> world" where
  "script API_KEY provider stdin w =
     (case main API_KEY provider stdin w of (self, w1, rest) \<Rightarrow> (0, w1))"

text \<open>A session: successive calls of \<^verbatim>\<open>generate_response\<close> on one agent.\<close>

fun generate_responses ::
  "provider \<Rightarrow> agent \<Rightarrow> string list \<Rightarrow> world \<Rightarrow> string list \<times> agent \<times> world" where
  "generate_responses provider self [] w = ([], self, w)"
| "generate_responses provider self (x # xs) w =
     (case generate_response provider self x w of
        (r, self1, w1) \<Rightarrow>
          (case generate_responses provider self1 xs w1 of
             (rs, self2, w2) \<Rightarrow> (r # rs, self2, w2)))"

section \<open>Properties\<close>

subsection \<open>Auxiliary facts\<close>

lemma add_user_message_snd:
  "snd (add_user_message self x) =
     self\<lparr>conversation_history := conversation_history self @ [\<lparr>role = ''user'', parts = [Text x]\<rparr>]\<rparr>"
  by (simp add: add_user_message_def Let_def)

lemma extract_text_present:
  "Part (Attr None) \<notin> set ps \<Longrightarrow>
   extract_text acc ps = Inr (acc @ concat (map (\<lambda>q. case q of Part (Attr (Some t)) \<Rightarrow> t | _ \<Rightarrow> []) ps))"
proof (induction acc ps rule: extract_text.induct)
qed simp_all

lemma extract_text_all_text:
  "extract_text acc (map (\<lambda>t. Part (Attr (Some t))) ts) = Inr (acc @ concat ts)"
  by (induction ts arbitrary: acc) simp_all

lemma process_response_success:
  "extract_text [] (p # ps) = Inr t \<Longrightarrow>
   process_response
     (Some (Response (Attr (Some (Candidate (Attr (Some (Content (Attr (Some (p # ps)))))) md # cs)))))
     self w =
   (Inr (t @ (case md of Attr (Some (UrlContextMetadata m)) \<Rightarrow> url_sources m | _ \<Rightarrow> [])),
    self\<lparr>conversation_history := conversation_history self @ [\<lparr>role = ''model'', parts = [Text t]\<rparr>]\<rparr>,
    (case md of Attr (Some (UrlContextMetadata m)) \<Rightarrow> logger_info (''URL context metadata: '' @ m) w
     | _ \<Rightarrow> w))"
  by (simp add: process_response_def add_model_message_def Let_def
      split: attr.splits option.splits url_context_metadata.splits)

lemma generate_response_returns:
  "provider (request_of (snd (add_user_message self x))) = Returns resp \<Longrightarrow>
   generate_response provider self x w =
     (case process_response resp (snd (add_user_message self x))
             (logger_info ''Response received from Gemini API''
               (snd (generate_content provider (request_of (snd (add_user_message self x)))
                  (logger_info ''Sending request to Gemini API...'' w)))) of
        (Inr response_text, self2, w2) \<Rightarrow> (response_text, self2, w2)
      | (Inl e, self2, w2) \<Rightarrow>
          (''Error generating response: '' @ str e, self2,
           logger_error (''Error generating response: '' @ str e) w2))"
  by (simp add: generate_response_def generate_response_try_def generate_content_def Let_def
      split: prod.splits sum.splits)

lemma generate_response_raises:
  "provider (request_of (snd (add_user_message self x))) = Raises e \<Longrightarrow>
   generate_response provider self x w =
     (''Error generating response: '' @ str e, snd (add_user_message self x),
      logger_error (''Error generating response: '' @ str e)
        (snd (generate_content provider (request_of (snd (add_user_message self x)))
                  (logger_info ''Sending request to Gemini API...'' w))))"
  by (simp add: generate_response_def generate_response_try_def generate_content_def Let_def)

text \<open>
  What one call does to the agent, whatever the provider does: a call that logs an error
  appends the user turn only; every other call appends the user turn and one model turn.
  No other field of the agent changes.
\<close>

lemma generate_response_history:
  "case generate_response provider self x w of
     (r, self2, w2) \<Rightarrow>
       (if ERROR \<in> fst ` set (drop (length (logged w)) (logged w2))
        then self2 = self\<lparr>conversation_history :=
               conversation_history self @ [\<lparr>role = ''user'', parts = [Text x]\<rparr>]\<rparr>
        else (\<exists>t. self2 = self\<lparr>conversation_history :=
               conversation_history self @
                 [\<lparr>role = ''user'', parts = [Text x]\<rparr>, \<lparr>role = ''model'', parts = [Text t]\<rparr>]\<rparr>))"
proof (cases "provider (request_of (snd (add_user_message self x)))")
  case (Raises e)
  then show ?thesis
    by (simp add: generate_response_raises add_user_message_snd generate_content_def
        logger_info_def logger_error_def)
next
  case (Returns resp)
  have g: "generate_response provider self x w =
     (case process_response resp (snd (add_user_message self x))
             (logger_info ''Response received from Gemini API''
               (snd (generate_content provider (request_of (snd (add_user_message self x)))
                  (logger_info ''Sending request to Gemini API...'' w)))) of
        (Inr response_text, self2, w2) \<Rightarrow> (response_text, self2, w2)
      | (Inl e, self2, w2) \<Rightarrow>
          (''Error generating response: '' @ str e, self2,
           logger_error (''Error generating response: '' @ str e) w2))"
    using Returns by (rule generate_response_returns)
  show ?thesis
    unfolding g
    by (auto simp add: add_user_message_snd generate_content_def
        process_response_def return_error_def add_model_message_def Let_def
        logger_info_def logger_error_def
        split: option.splits response.splits attr.splits list.splits candidate.splits
          content.splits sum.splits url_context_metadata.splits)
qed

lemma generate_responses_history:
  "case generate_responses provider self xs w of
     (rs, self2, w2) \<Rightarrow>
       (\<exists>ts. length ts = length xs \<and>
          self2 = self\<lparr>conversation_history :=
            conversation_history self @ concat (map (\<lambda>(x, t). \<lparr>role = ''user'', parts = [Text x]\<rparr> #
                              (case t of None \<Rightarrow> []
                               | Some t' \<Rightarrow> [\<lparr>role = ''model'', parts = [Text t']\<rparr>])) (zip xs ts))\<rparr>)"
proof (induction xs arbitrary: self w)
  case Nil
  show ?case by simp
next
  case (Cons x xs)
  obtain r self1 w1 where g: "generate_response provider self x w = (r, self1, w1)"
    by (cases "generate_response provider self x w") auto
  obtain rs self2 w2 where gs: "generate_responses provider self1 xs w1 = (rs, self2, w2)"
    by (cases "generate_responses provider self1 xs w1") auto
  from Cons.IH [where self = self1 and w = w1] gs obtain ts where
    ts: "length ts = length xs"
      "self2 = self1\<lparr>conversation_history :=
            conversation_history self1 @ concat (map (\<lambda>(x, t). \<lparr>role = ''user'', parts = [Text x]\<rparr> #
                              (case t of None \<Rightarrow> []
                               | Some t' \<Rightarrow> [\<lparr>role = ''model'', parts = [Text t']\<rparr>])) (zip xs ts))\<rparr>"
    by auto
  from generate_response_history [where provider = provider and self = self and x = x and w = w] g
  have "self1 = self\<lparr>conversation_history :=
               conversation_history self @ [\<lparr>role = ''user'', parts = [Text x]\<rparr>]\<rparr>
        \<or> (\<exists>t. self1 = self\<lparr>conversation_history :=
               conversation_history self @
                 [\<lparr>role = ''user'', parts = [Text x]\<rparr>, \<lparr>role = ''model'', parts = [Text t]\<rparr>]\<rparr>)"
    by (auto split: if_splits)
  then obtain t where
    t: "self1 = self\<lparr>conversation_history :=
               conversation_history self @ \<lparr>role = ''user'', parts = [Text x]\<rparr> #
                 (case t of None \<Rightarrow> [] | Some t' \<Rightarrow> [\<lparr>role = ''model'', parts = [Text t']\<rparr>])\<rparr>"
  proof
    assume "self1 = self\<lparr>conversation_history :=
               conversation_history self @ [\<lparr>role = ''user'', parts = [Text x]\<rparr>]\<rparr>"
    then show ?thesis using that [of None] by simp
  next
    assume "\<exists>t. self1 = self\<lparr>conversation_history :=
               conversation_history self @
                 [\<lparr>role = ''user'', parts = [Text x]\<rparr>, \<lparr>role = ''model'', parts = [Text t]\<rparr>]\<rparr>"
    then obtain t' where "self1 = self\<lparr>conversation_history :=
               conversation_history self @
                 [\<lparr>role = ''user'', parts = [Text x]\<rparr>, \<lparr>role = ''model'', parts = [Text t']\<rparr>]\<rparr>"
      by blast
    then show ?thesis using that [of "Some t'"] by simp
  qed
  have res: "generate_responses provider self (x # xs) w = (r # rs, self2, w2)"
    by (simp add: g gs)
  have "length (t # ts) = length (x # xs)"
    using ts(1) by simp
  moreover have "self2 = self\<lparr>conversation_history :=
            conversation_history self @ concat (map (\<lambda>(x, t). \<lparr>role = ''user'', parts = [Text x]\<rparr> #
                              (case t of None \<Rightarrow> []
                               | Some t' \<Rightarrow> [\<lparr>role = ''model'', parts = [Text t']\<rparr>])) (zip (x # xs) (t # ts)))\<rparr>"
    unfolding ts(2) t by simp
  ultimately show ?case
    unfolding res prod.case by blast
qed

lemma length_blocks:
  "length ts = length xs \<Longrightarrow>
   length xs \<le> length (concat (map (\<lambda>(x, t). \<lparr>role = ''user'', parts = [Text x]\<rparr> #
                              (case t of None \<Rightarrow> []
                               | Some t' \<Rightarrow> [\<lparr>role = ''model'', parts = [Text t']\<rparr>])) (zip xs ts)))"
  by (induction ts xs rule: list_induct2) (auto split: option.splits)

lemma conversation_loop_exit:
  "lower (strip line) \<in> set [''exit'', ''quit'', ''bye''] \<Longrightarrow>
   conversation_loop provider (line # rest) self w =
     (Inr (), self, w\<lparr>stdout := stdout w @ [''\<newline>You: '', ''\<newline>Assistant: Thanks for chatting! Good luck in your adventures!\<newline>'']\<rparr>, rest)"
  by (simp add: print_end_def print_line_def Let_def)

lemma conversation_loop_submit:
  "lower (strip line) \<notin> set [''exit'', ''quit'', ''bye''] \<Longrightarrow>
   generate_response provider self (strip line)
     (w\<lparr>stdout := stdout w @ [''\<newline>You: '', ''\<newline>Assistant: '']\<rparr>) = (r, self1, w1) \<Longrightarrow>
   conversation_loop provider (line # rest) self w =
     conversation_loop provider rest self1 (w1\<lparr>stdout := stdout w1 @ [r @ ''\<newline>'']\<rparr>)"
  by (simp add: print_end_def print_line_def Let_def)

lemma conversation_loop_history:
  "case conversation_loop provider lines self w of
     (res, self2, w2, rest) \<Rightarrow>
       (\<exists>ext. conversation_history self2 = conversation_history self @ ext \<and>
              filter (\<lambda>m. role m = ''user'') ext = map (\<lambda>l. \<lparr>role = ''user'', parts = [Text (strip l)]\<rparr>) (takeWhile (\<lambda>l. lower (strip l) \<notin> set [''exit'', ''quit'', ''bye'']) lines))
     \<and> rest = drop (Suc (length (takeWhile (\<lambda>l. lower (strip l) \<notin> set [''exit'', ''quit'', ''bye'']) lines))) lines
     \<and> (res = Inr () \<longleftrightarrow> (\<exists>l \<in> set lines. lower (strip l) \<in> set [''exit'', ''quit'', ''bye'']))
     \<and> (res = Inr () \<longrightarrow> last (stdout w2) = ''\<newline>Assistant: Thanks for chatting! Good luck in your adventures!\<newline>'')"
proof (induction lines arbitrary: self w)
  case Nil
  show ?case by simp
next
  case (Cons line rest)
  show ?case
  proof (cases "lower (strip line) \<in> set [''exit'', ''quit'', ''bye'']")
    case True
    then show ?thesis
      by (simp add: conversation_loop_exit del: conversation_loop.simps)
  next
    case False
    obtain r self1 w1 where g: "generate_response provider self (strip line)
        (w\<lparr>stdout := stdout w @ [''\<newline>You: '', ''\<newline>Assistant: '']\<rparr>) = (r, self1, w1)"
      by (cases "generate_response provider self (strip line)
        (w\<lparr>stdout := stdout w @ [''\<newline>You: '', ''\<newline>Assistant: '']\<rparr>)") auto
    have step: "conversation_loop provider (line # rest) self w =
        conversation_loop provider rest self1 (w1\<lparr>stdout := stdout w1 @ [r @ ''\<newline>'']\<rparr>)"
      using False g by (rule conversation_loop_submit)
    from generate_response_history
      [where provider = provider and self = self and x = "strip line"
         and w = "w\<lparr>stdout := stdout w @ [''\<newline>You: '', ''\<newline>Assistant: '']\<rparr>"] g
    have h1: "conversation_history self1 =
                conversation_history self @ [\<lparr>role = ''user'', parts = [Text (strip line)]\<rparr>]
              \<or> (\<exists>t. conversation_history self1 =
                conversation_history self @
                  [\<lparr>role = ''user'', parts = [Text (strip line)]\<rparr>,
                   \<lparr>role = ''model'', parts = [Text t]\<rparr>])"
      by (auto split: if_splits)
    obtain res self2 w2 rest2 where
      l: "conversation_loop provider rest self1 (w1\<lparr>stdout := stdout w1 @ [r @ ''\<newline>'']\<rparr>) =
            (res, self2, w2, rest2)"
      by (cases "conversation_loop provider rest self1 (w1\<lparr>stdout := stdout w1 @ [r @ ''\<newline>'']\<rparr>)")
        auto
    from Cons.IH [where self = self1 and w = "w1\<lparr>stdout := stdout w1 @ [r @ ''\<newline>'']\<rparr>"] l
    obtain ext where
      ih: "conversation_history self2 = conversation_history self1 @ ext"
        "filter (\<lambda>m. role m = ''user'') ext = map (\<lambda>l. \<lparr>role = ''user'', parts = [Text (strip l)]\<rparr>) (takeWhile (\<lambda>l. lower (strip l) \<notin> set [''exit'', ''quit'', ''bye'']) rest)"
        "rest2 = drop (Suc (length (takeWhile (\<lambda>l. lower (strip l) \<notin> set [''exit'', ''quit'', ''bye'']) rest))) rest"
        "res = Inr () \<longleftrightarrow> (\<exists>l \<in> set rest. lower (strip l) \<in> set [''exit'', ''quit'', ''bye''])"
        "res = Inr () \<longrightarrow> last (stdout w2) = ''\<newline>Assistant: Thanks for chatting! Good luck in your adventures!\<newline>''"
      by auto
    from h1 ih(1,2) have
      "\<exists>ext'. conversation_history self2 = conversation_history self @ ext' \<and>
              filter (\<lambda>m. role m = ''user'') ext' = map (\<lambda>l. \<lparr>role = ''user'', parts = [Text (strip l)]\<rparr>) (takeWhile (\<lambda>l. lower (strip l) \<notin> set [''exit'', ''quit'', ''bye'']) (line # rest))"
      using False by auto
    then show ?thesis
      unfolding step l using ih(3,4,5) False by simp
  qed
qed

text \<open>
  \<^verbatim>\<open>main\<close> with a credential, on an input that holds an exit token: the loop ends by its
  \<^verbatim>\<open>break\<close>, no handler runs, and the farewell is the last output.
\<close>

lemma main_ends_with_farewell:
  assumes key: "key \<noteq> []"
    and ex: "\<exists>l \<in> set lines. lower (strip l) \<in> set [''exit'', ''quit'', ''bye'']"
  shows "last (stdout (fst (snd (main (Some key) provider lines w)))) = ''\<newline>Assistant: Thanks for chatting! Good luck in your adventures!\<newline>''"
proof -
  obtain self0 where i: "\<And>v. init (Some key) v = (Inr self0, v)"
    using key by (simp add: init_def Let_def)
  let ?w7 = "print_line ''Assistant: How can I help with your Project Diablo 2 character today?''
              (print_line (replicate 50 CHR ''-'')
                (print_line ''Tip: You can provide character URLs or guide URLs in your messages.''
                  (print_line (replicate 50 CHR ''-'')
                    (print_line ''Type 'exit' or 'quit' to end the conversation.''
                      (print_line ''Welcome to the Project Diablo 2 Chat Assistant!'' w)))))"
  obtain res self2 w2 rest where
    l: "conversation_loop provider lines self0 ?w7 = (res, self2, w2, rest)"
    by (cases "conversation_loop provider lines self0 ?w7") auto
  from conversation_loop_history
    [where provider = provider and lines = lines and self = self0 and w = ?w7] l ex
  have "res = Inr ()" and "last (stdout w2) = ''\<newline>Assistant: Thanks for chatting! Good luck in your adventures!\<newline>''"
    by auto
  then show ?thesis
    by (simp add: main_def Let_def i l)
qed

subsection \<open>A successful call\<close>

text \<open>
  The path to the final \<^verbatim>\<open>return response_text\<close>: the provider returns a response that
  passes the three presence checks (a first candidate, its content, a non-empty list of
  parts), and the extraction loop completes with a text \<open>t\<close>. Then the history grows by
  exactly two entries: first the user turn with the text \<open>x\<close> as given, then the model
  turn with the extracted text \<open>t\<close>; and exactly one request goes on the network,
  carrying the history with the new user turn.
\<close>

lemma final_return_appends_two:
  fixes self :: agent and x :: string
  defines "self1 \<equiv> self\<lparr>conversation_history :=
                          conversation_history self @ [\<lparr>role = ''user'', parts = [Text x]\<rparr>]\<rparr>"
  assumes returns: "provider (request_of self1) =
      Returns (Some (Response (Attr (Some
        (Candidate (Attr (Some (Content (Attr (Some (p # ps)))))) metadata # cands)))))"
    and extracted: "extract_text [] (p # ps) = Inr t"
  shows "case generate_response provider self x w of
           (r, self2, w2) \<Rightarrow>
             conversation_history self2 =
               conversation_history self @
                 [\<lparr>role = ''user'', parts = [Text x]\<rparr>, \<lparr>role = ''model'', parts = [Text t]\<rparr>]
           \<and> length (conversation_history self2) = length (conversation_history self) + 2
           \<and> network w2 = network w @ [request_of self1]"
proof -
  have s1: "snd (add_user_message self x) = self1"
    by (simp add: add_user_message_snd self1_def)
  show ?thesis
    using returns extracted
    by (simp add: generate_response_returns s1 process_response_success self1_def
        generate_content_def logger_info_def
        split: attr.splits option.splits url_context_metadata.splits)
qed

text \<open>
  The scenario of the specification: the first question of a session, answered with the
  one fragment \<open>''Spirit grants +2 all skills.''\<close> and no metadata.
\<close>

lemma final_return_scenario:
  "case generate_response
          (\<lambda>req. Returns (Some (Response (Attr (Some
             [Candidate (Attr (Some (Content (Attr (Some [Part (Attr (Some ''Spirit grants +2 all skills.''))])))))
                Missing])))))
          \<lparr>client = Client ''key'', model_id = ''m'', wiki = ''u'',
          url_context_tool = Tool_url_context, google_search_tool = Tool_google_search,
          conversation_history = []\<rparr>
          ''What does Spirit rune word do?''
          \<lparr>stdout = [], logged = [], network = []\<rparr> of
     (r, self2, w2) \<Rightarrow>
       conversation_history self2 =
         [\<lparr>role = ''user'', parts = [Text ''What does Spirit rune word do?'']\<rparr>,
          \<lparr>role = ''model'', parts = [Text ''Spirit grants +2 all skills.'']\<rparr>]
       \<and> length (conversation_history self2) = 2
       \<and> length (network w2) = 1"
  using final_return_appends_two
    [of "\<lambda>req. Returns (Some (Response (Attr (Some
             [Candidate (Attr (Some (Content (Attr (Some [Part (Attr (Some ''Spirit grants +2 all skills.''))])))))
                Missing]))))"
        "\<lparr>client = Client ''key'', model_id = ''m'', wiki = ''u'',
          url_context_tool = Tool_url_context, google_search_tool = Tool_google_search,
          conversation_history = []\<rparr>"
        "''What does Spirit rune word do?''"
        "Part (Attr (Some ''Spirit grants +2 all skills.''))" "[]" Missing "[]"
        "''Spirit grants +2 all skills.''"
        "\<lparr>stdout = [], logged = [], network = []\<rparr>"]
  by (simp split: prod.splits)

text \<open>
  Claim C1. The claim promises two appends, the user turn and then the model turn, for
  every call in which the provider returns a result that passes the validation checks.
  The program does not keep it for a result that passes the three checks and has a
  part whose attribute \<^verbatim>\<open>text\<close> is present with the value \<^verbatim>\<open>None\<close>, as the parts of
  the provider's library that carry no text have: \<^verbatim>\<open>hasattr(part, 'text')\<close> holds,
  \<^verbatim>\<open>response_text += part.text\<close> raises a \<^verbatim>\<open>TypeError\<close>, and the handler returns it as
  a string. The history has grown by the user turn only, and the text of the parts
  before is lost. Had the part lacked the attribute, it would have been skipped and
  the call would have appended both turns: the guard of line 133 is there to skip
  parts without text, and tests \<^verbatim>\<open>hasattr\<close> alone where the tests of lines 114, 120,
  125 and 140 test the value as well.
\<close>

theorem none_text_part_drops_model_turn:
  \<open>(case generate_response
          (\<lambda>req. Returns (Some (Response (Attr (Some
             [Candidate (Attr (Some (Content (Attr (Some
                [Part (Attr (Some ''Spirit grants'')), Part (Attr None)])))))
                Missing])))))
          \<lparr>client = Client ''key'', model_id = ''m'', wiki = ''u'',
          url_context_tool = Tool_url_context, google_search_tool = Tool_google_search,
          conversation_history = []\<rparr> ''hi'' \<lparr>stdout = [], logged = [], network = []\<rparr> of
     (r, self2, w2) \<Rightarrow>
       r = ''Error generating response: can only concatenate str (not "NoneType") to str''
     \<and> conversation_history self2 = [\<lparr>role = ''user'', parts = [Text ''hi'']\<rparr>]
     \<and> length (conversation_history self2) = 1)
   \<and> (case generate_response
          (\<lambda>req. Returns (Some (Response (Attr (Some
             [Candidate (Attr (Some (Content (Attr (Some
                [Part (Attr (Some ''Spirit grants'')), Part Missing])))))
                Missing])))))
          \<lparr>client = Client ''key'', model_id = ''m'', wiki = ''u'',
          url_context_tool = Tool_url_context, google_search_tool = Tool_google_search,
          conversation_history = []\<rparr> ''hi'' \<lparr>stdout = [], logged = [], network = []\<rparr> of
     (r, self2, w2) \<Rightarrow>
       r = ''Spirit grants''
     \<and> conversation_history self2 =
         [\<lparr>role = ''user'', parts = [Text ''hi'']\<rparr>,
          \<lparr>role = ''model'', parts = [Text ''Spirit grants'']\<rparr>]
     \<and> length (conversation_history self2) = 2)\<close>
  by (simp add: generate_response_def generate_response_try_def generate_content_def
        process_response_def add_user_message_def add_model_message_def request_of_def
        logger_info_def logger_error_def url_sources_def Let_def)

subsection \<open>Failures of the provider\<close>

text \<open>
  Claim C2. When the call of the provider raises an exception \<open>e\<close>, the exception is
  raised inside the \<^verbatim>\<open>try\<close> block and caught there: \<^verbatim>\<open>generate_response\<close> returns the
  string \<open>''Error generating response: ''\<close> followed by \<open>str e\<close>, and the history has grown
  by exactly one entry, the user turn with the text \<open>x\<close>; no model turn is appended.
\<close>

theorem provider_exception_is_caught:
  fixes self :: agent and x :: string
  defines "self1 \<equiv> self\<lparr>conversation_history :=
                          conversation_history self @ [\<lparr>role = ''user'', parts = [Text x]\<rparr>]\<rparr>"
  assumes raises: "provider (request_of self1) = Raises e"
  shows "fst (generate_response_try provider self1 w) = Inl e \<and>
         (case generate_response provider self x w of
            (r, self2, w2) \<Rightarrow>
              r = ''Error generating response: '' @ str e
            \<and> conversation_history self2 =
                conversation_history self @ [\<lparr>role = ''user'', parts = [Text x]\<rparr>]
            \<and> length (conversation_history self2) = length (conversation_history self) + 1)"
proof -
  have s1: "snd (add_user_message self x) = self1"
    by (simp add: add_user_message_snd self1_def)
  have "fst (generate_response_try provider self1 w) = Inl e"
    using raises by (simp add: generate_response_try_def generate_content_def Let_def)
  moreover have "generate_response provider self x w =
     (''Error generating response: '' @ str e, self1,
      logger_error (''Error generating response: '' @ str e)
        (snd (generate_content provider (request_of self1)
                  (logger_info ''Sending request to Gemini API...'' w))))"
    using raises generate_response_raises [of provider self x e w] by (simp add: s1)
  ultimately show ?thesis
    by (simp add: self1_def)
qed

theorem provider_exception_is_caught_witness:
  "case generate_response (\<lambda>req. Raises (OtherException ''503 UNAVAILABLE''))
          \<lparr>client = Client ''key'', model_id = ''m'', wiki = ''u'',
          url_context_tool = Tool_url_context, google_search_tool = Tool_google_search,
          conversation_history = []\<rparr> ''hello'' \<lparr>stdout = [], logged = [], network = []\<rparr> of
     (r, self2, w2) \<Rightarrow>
       r = ''Error generating response: 503 UNAVAILABLE''
     \<and> conversation_history self2 = [\<lparr>role = ''user'', parts = [Text ''hello'']\<rparr>]
     \<and> length (conversation_history self2) = 1"
  using provider_exception_is_caught
    [of "\<lambda>req. Raises (OtherException ''503 UNAVAILABLE'')"
        "\<lparr>client = Client ''key'', model_id = ''m'', wiki = ''u'',
          url_context_tool = Tool_url_context, google_search_tool = Tool_google_search,
          conversation_history = []\<rparr>"
        "''hello''" "OtherException ''503 UNAVAILABLE''"
        "\<lparr>stdout = [], logged = [], network = []\<rparr>"]
  by (simp split: prod.splits)

subsection \<open>Malformed responses\<close>

text \<open>
  Claim C3. When the provider returns a result without candidates (no result, no
  attribute, \<^verbatim>\<open>None\<close> or an empty list), with a first candidate without content, or with
  a content without parts, \<^verbatim>\<open>generate_response\<close> returns the fixed string of that case,
  and the agent is the one after the append of the user turn: the history has grown by
  exactly one entry and holds no model turn for the call.
\<close>

theorem malformed_response_errors:
  fixes self :: agent and x :: string
  defines "self1 \<equiv> self\<lparr>conversation_history :=
                          conversation_history self @ [\<lparr>role = ''user'', parts = [Text x]\<rparr>]\<rparr>"
  assumes returns: "provider (request_of self1) = Returns resp"
  shows "((resp = None \<or>
           (\<exists>cs. resp = Some (Response cs) \<and> (cs = Missing \<or> cs = Attr None \<or> cs = Attr (Some [])))) \<longrightarrow>
          (case generate_response provider self x w of
             (r, self2, w2) \<Rightarrow>
               r = ''No valid response received from Gemini API'' \<and> self2 = self1 \<and>
               length (conversation_history self2) = length (conversation_history self) + 1))
       \<and> ((\<exists>c metadata cands. resp = Some (Response (Attr (Some (Candidate c metadata # cands)))) \<and>
             (c = Missing \<or> c = Attr None)) \<longrightarrow>
          (case generate_response provider self x w of
             (r, self2, w2) \<Rightarrow>
               r = ''No content in response candidate'' \<and> self2 = self1 \<and>
               length (conversation_history self2) = length (conversation_history self) + 1))
       \<and> ((\<exists>ps metadata cands.
              resp = Some (Response (Attr (Some
                       (Candidate (Attr (Some (Content ps))) metadata # cands)))) \<and>
              (ps = Missing \<or> ps = Attr None \<or> ps = Attr (Some []))) \<longrightarrow>
          (case generate_response provider self x w of
             (r, self2, w2) \<Rightarrow>
               r = ''No parts in content'' \<and> self2 = self1 \<and>
               length (conversation_history self2) = length (conversation_history self) + 1))"
proof -
  have s1: "snd (add_user_message self x) = self1"
    by (simp add: add_user_message_snd self1_def)
  have g: "generate_response provider self x w =
     (case process_response resp self1
             (logger_info ''Response received from Gemini API''
               (snd (generate_content provider (request_of self1)
                  (logger_info ''Sending request to Gemini API...'' w)))) of
        (Inr response_text, self2, w2) \<Rightarrow> (response_text, self2, w2)
      | (Inl e, self2, w2) \<Rightarrow>
          (''Error generating response: '' @ str e, self2,
           logger_error (''Error generating response: '' @ str e) w2))"
    using returns generate_response_returns [of provider self x resp w] by (simp add: s1)
  have len: "length (conversation_history self1) = length (conversation_history self) + 1"
    by (simp add: self1_def)
  show ?thesis
    unfolding g using len
    by (auto simp add: process_response_def return_error_def)
qed

theorem malformed_response_errors_witness:
  "fst (generate_response (\<lambda>req. Returns (Some (Response (Attr (Some [])))))
          \<lparr>client = Client ''key'', model_id = ''m'', wiki = ''u'',
          url_context_tool = Tool_url_context, google_search_tool = Tool_google_search,
          conversation_history = []\<rparr> ''hi'' \<lparr>stdout = [], logged = [], network = []\<rparr>) = ''No valid response received from Gemini API''
   \<and> conversation_history (fst (snd (generate_response (\<lambda>req. Returns (Some (Response (Attr (Some [])))))
          \<lparr>client = Client ''key'', model_id = ''m'', wiki = ''u'',
          url_context_tool = Tool_url_context, google_search_tool = Tool_google_search,
          conversation_history = []\<rparr> ''hi'' \<lparr>stdout = [], logged = [], network = []\<rparr>))) = [\<lparr>role = ''user'', parts = [Text ''hi'']\<rparr>]
   \<and> fst (generate_response (\<lambda>req. Returns (Some (Response (Attr (Some [Candidate (Attr None) Missing])))))
          \<lparr>client = Client ''key'', model_id = ''m'', wiki = ''u'',
          url_context_tool = Tool_url_context, google_search_tool = Tool_google_search,
          conversation_history = []\<rparr> ''hi'' \<lparr>stdout = [], logged = [], network = []\<rparr>) = ''No content in response candidate''
   \<and> conversation_history (fst (snd (generate_response
          (\<lambda>req. Returns (Some (Response (Attr (Some [Candidate (Attr None) Missing])))))
          \<lparr>client = Client ''key'', model_id = ''m'', wiki = ''u'',
          url_context_tool = Tool_url_context, google_search_tool = Tool_google_search,
          conversation_history = []\<rparr> ''hi'' \<lparr>stdout = [], logged = [], network = []\<rparr>))) = [\<lparr>role = ''user'', parts = [Text ''hi'']\<rparr>]
   \<and> fst (generate_response
          (\<lambda>req. Returns (Some (Response (Attr (Some
             [Candidate (Attr (Some (Content (Attr (Some []))))) Missing])))))
          \<lparr>client = Client ''key'', model_id = ''m'', wiki = ''u'',
          url_context_tool = Tool_url_context, google_search_tool = Tool_google_search,
          conversation_history = []\<rparr> ''hi'' \<lparr>stdout = [], logged = [], network = []\<rparr>) = ''No parts in content''
   \<and> conversation_history (fst (snd (generate_response
          (\<lambda>req. Returns (Some (Response (Attr (Some
             [Candidate (Attr (Some (Content (Attr (Some []))))) Missing])))))
          \<lparr>client = Client ''key'', model_id = ''m'', wiki = ''u'',
          url_context_tool = Tool_url_context, google_search_tool = Tool_google_search,
          conversation_history = []\<rparr> ''hi'' \<lparr>stdout = [], logged = [], network = []\<rparr>))) = [\<lparr>role = ''user'', parts = [Text ''hi'']\<rparr>]"
  using
    malformed_response_errors
      [of "\<lambda>req. Returns (Some (Response (Attr (Some []))))"
          "\<lparr>client = Client ''key'', model_id = ''m'', wiki = ''u'',
          url_context_tool = Tool_url_context, google_search_tool = Tool_google_search,
          conversation_history = []\<rparr>" "''hi''" "Some (Response (Attr (Some [])))" "\<lparr>stdout = [], logged = [], network = []\<rparr>"]
    malformed_response_errors
      [of "\<lambda>req. Returns (Some (Response (Attr (Some [Candidate (Attr None) Missing]))))"
          "\<lparr>client = Client ''key'', model_id = ''m'', wiki = ''u'',
          url_context_tool = Tool_url_context, google_search_tool = Tool_google_search,
          conversation_history = []\<rparr>" "''hi''" "Some (Response (Attr (Some [Candidate (Attr None) Missing])))" "\<lparr>stdout = [], logged = [], network = []\<rparr>"]
    malformed_response_errors
      [of "\<lambda>req. Returns (Some (Response (Attr (Some
             [Candidate (Attr (Some (Content (Attr (Some []))))) Missing]))))"
          "\<lparr>client = Client ''key'', model_id = ''m'', wiki = ''u'',
          url_context_tool = Tool_url_context, google_search_tool = Tool_google_search,
          conversation_history = []\<rparr>" "''hi''"
          "Some (Response (Attr (Some [Candidate (Attr (Some (Content (Attr (Some []))))) Missing])))"
          "\<lparr>stdout = [], logged = [], network = []\<rparr>"]
  by (simp split: prod.splits)

subsection \<open>Extraction of the response text\<close>

text \<open>
  Claim C4. On a successful call whose first candidate has the parts with the texts
  \<open>ts\<close>, the returned string is the concatenation of \<open>ts\<close> in their order, with nothing
  between them, followed only by the citation block when the candidate carries metadata:
  the returned string begins with \<open>concat ts\<close>, and \<open>concat ts\<close> is the text of the model
  turn. For the texts \<open>A\<close>, \<open>B\<close>, \<open>C\<close> the returned string begins with \<open>ABC\<close>.
\<close>

theorem fragments_concatenated_in_order:
  fixes self :: agent and x :: string
  defines "self1 \<equiv> self\<lparr>conversation_history :=
                          conversation_history self @ [\<lparr>role = ''user'', parts = [Text x]\<rparr>]\<rparr>"
  assumes returns: "provider (request_of self1) =
      Returns (Some (Response (Attr (Some
        (Candidate (Attr (Some (Content (Attr (Some (map (\<lambda>t. Part (Attr (Some t))) ts))))))
           metadata # cands)))))"
    and nonempty: "ts \<noteq> []"
  shows "case generate_response provider self x w of
           (r, self2, w2) \<Rightarrow>
             r = concat ts @
                 (case metadata of Attr (Some (UrlContextMetadata m)) \<Rightarrow> url_sources m | _ \<Rightarrow> [])
           \<and> take (length (concat ts)) r = concat ts
           \<and> last (conversation_history self2) = \<lparr>role = ''model'', parts = [Text (concat ts)]\<rparr>"
proof -
  have s1: "snd (add_user_message self x) = self1"
    by (simp add: add_user_message_snd self1_def)
  obtain t ts' where ts: "ts = t # ts'"
    using nonempty by (cases ts) auto
  have ex: "extract_text [] (Part (Attr (Some t)) # map (\<lambda>t. Part (Attr (Some t))) ts') = Inr (concat ts)"
    using extract_text_all_text [of "[]" ts] by (simp add: ts)
  show ?thesis
    using returns ex
    by (simp add: generate_response_returns s1 process_response_success ts
        split: attr.splits option.splits url_context_metadata.splits)
qed

theorem fragments_concatenated_in_order_witness:
  "fst (generate_response
          (\<lambda>req. Returns (Some (Response (Attr (Some
             [Candidate (Attr (Some (Content (Attr (Some
                [Part (Attr (Some ''A'')), Part (Attr (Some ''B'')), Part (Attr (Some ''C''))])))))
                (Attr (Some (UrlContextMetadata ''meta'')))])))))
          \<lparr>client = Client ''key'', model_id = ''m'', wiki = ''u'',
          url_context_tool = Tool_url_context, google_search_tool = Tool_google_search,
          conversation_history = []\<rparr> ''hi'' \<lparr>stdout = [], logged = [], network = []\<rparr>) = ''ABC'' @ url_sources ''meta''
   \<and> take 3 (fst (generate_response
          (\<lambda>req. Returns (Some (Response (Attr (Some
             [Candidate (Attr (Some (Content (Attr (Some
                [Part (Attr (Some ''A'')), Part (Attr (Some ''B'')), Part (Attr (Some ''C''))])))))
                (Attr (Some (UrlContextMetadata ''meta'')))])))))
          \<lparr>client = Client ''key'', model_id = ''m'', wiki = ''u'',
          url_context_tool = Tool_url_context, google_search_tool = Tool_google_search,
          conversation_history = []\<rparr> ''hi'' \<lparr>stdout = [], logged = [], network = []\<rparr>)) = ''ABC''"
  using fragments_concatenated_in_order
      [of "\<lambda>req. Returns (Some (Response (Attr (Some
             [Candidate (Attr (Some (Content (Attr (Some
                [Part (Attr (Some ''A'')), Part (Attr (Some ''B'')), Part (Attr (Some ''C''))])))))
                (Attr (Some (UrlContextMetadata ''meta'')))]))))"
          "\<lparr>client = Client ''key'', model_id = ''m'', wiki = ''u'',
          url_context_tool = Tool_url_context, google_search_tool = Tool_google_search,
          conversation_history = []\<rparr>" "''hi''" "[''A'', ''B'', ''C'']" "Attr (Some (UrlContextMetadata ''meta''))" "[]"
          "\<lparr>stdout = [], logged = [], network = []\<rparr>"]
  by (simp split: prod.splits)

text \<open>
  Claim C10, as amended. When the first candidate's list of parts is not empty and
  every part either lacks the attribute \<^verbatim>\<open>text\<close> or holds a string in it, the call
  succeeds: the parts without the attribute are skipped, the model turn appended after
  the user turn holds the concatenation of the texts that are present, in order (the
  empty string when none is), and the returned string is that concatenation, followed
  by the citation block when the candidate carries metadata.
\<close>

theorem textless_fragments_skipped:
  fixes self :: agent and x :: string
  defines "self1 \<equiv> self\<lparr>conversation_history :=
                          conversation_history self @ [\<lparr>role = ''user'', parts = [Text x]\<rparr>]\<rparr>"
  assumes returns: "provider (request_of self1) =
      Returns (Some (Response (Attr (Some
        (Candidate (Attr (Some (Content (Attr (Some (p # ps)))))) metadata # cands)))))"
    and no_none: "Part (Attr None) \<notin> set (p # ps)"
  shows "case generate_response provider self x w of
           (r, self2, w2) \<Rightarrow>
             r = concat (map (\<lambda>q. case q of Part (Attr (Some t)) \<Rightarrow> t | _ \<Rightarrow> []) (p # ps)) @
                 (case metadata of Attr (Some (UrlContextMetadata m)) \<Rightarrow> url_sources m | _ \<Rightarrow> [])
           \<and> conversation_history self2 =
               conversation_history self @
                 [\<lparr>role = ''user'', parts = [Text x]\<rparr>,
                  \<lparr>role = ''model'', parts = [Text (concat (map (\<lambda>q. case q of Part (Attr (Some t)) \<Rightarrow> t | _ \<Rightarrow> []) (p # ps)))]\<rparr>]"
proof -
  have s1: "snd (add_user_message self x) = self1"
    by (simp add: add_user_message_snd self1_def)
  have ex: "extract_text [] (p # ps) = Inr (concat (map (\<lambda>q. case q of Part (Attr (Some t)) \<Rightarrow> t | _ \<Rightarrow> []) (p # ps)))"
    using extract_text_present [OF no_none, of "[]"] by simp
  show ?thesis
    using returns
    by (simp add: generate_response_returns s1 process_response_success [OF ex] self1_def
        split: attr.splits option.splits url_context_metadata.splits)
qed

theorem textless_fragments_skipped_witness:
  "(case generate_response
          (\<lambda>req. Returns (Some (Response (Attr (Some
             [Candidate (Attr (Some (Content (Attr (Some
                [Part Missing, Part (Attr (Some ''A'')), Part Missing, Part (Attr (Some ''B''))])))))
                Missing])))))
          \<lparr>client = Client ''key'', model_id = ''m'', wiki = ''u'',
          url_context_tool = Tool_url_context, google_search_tool = Tool_google_search,
          conversation_history = []\<rparr> ''hi'' \<lparr>stdout = [], logged = [], network = []\<rparr> of
     (r, self2, w2) \<Rightarrow>
       r = ''AB''
     \<and> conversation_history self2 =
         [\<lparr>role = ''user'', parts = [Text ''hi'']\<rparr>, \<lparr>role = ''model'', parts = [Text ''AB'']\<rparr>])
   \<and> (case generate_response
          (\<lambda>req. Returns (Some (Response (Attr (Some
             [Candidate (Attr (Some (Content (Attr (Some [Part Missing])))))
                Missing])))))
          \<lparr>client = Client ''key'', model_id = ''m'', wiki = ''u'',
          url_context_tool = Tool_url_context, google_search_tool = Tool_google_search,
          conversation_history = []\<rparr> ''hi'' \<lparr>stdout = [], logged = [], network = []\<rparr> of
     (r, self2, w2) \<Rightarrow>
       r = ''''
     \<and> conversation_history self2 =
         [\<lparr>role = ''user'', parts = [Text ''hi'']\<rparr>, \<lparr>role = ''model'', parts = [Text '''']\<rparr>])"
  using textless_fragments_skipped
      [of "\<lambda>req. Returns (Some (Response (Attr (Some
             [Candidate (Attr (Some (Content (Attr (Some
                [Part Missing, Part (Attr (Some ''A'')), Part Missing, Part (Attr (Some ''B''))])))))
                Missing]))))"
          "\<lparr>client = Client ''key'', model_id = ''m'', wiki = ''u'',
          url_context_tool = Tool_url_context, google_search_tool = Tool_google_search,
          conversation_history = []\<rparr>" "''hi''" "Part Missing"
          "[Part (Attr (Some ''A'')), Part Missing, Part (Attr (Some ''B''))]" Missing "[]" "\<lparr>stdout = [], logged = [], network = []\<rparr>"]
    textless_fragments_skipped
      [of "\<lambda>req. Returns (Some (Response (Attr (Some
             [Candidate (Attr (Some (Content (Attr (Some [Part Missing])))))
                Missing]))))"
          "\<lparr>client = Client ''key'', model_id = ''m'', wiki = ''u'',
          url_context_tool = Tool_url_context, google_search_tool = Tool_google_search,
          conversation_history = []\<rparr>" "''hi''" "Part Missing" "[]" Missing "[]" "\<lparr>stdout = [], logged = [], network = []\<rparr>"]
  by (simp split: prod.splits)

text \<open>
  Two responses whose first candidate has a part without the attribute \<^verbatim>\<open>text\<close>. With
  metadata, the returned string is not the concatenation of the present texts: the
  citation block follows it. With a second part whose \<^verbatim>\<open>text\<close> is \<^verbatim>\<open>None\<close>, the call
  returns the error string of the handler and appends no model turn.
\<close>

theorem textless_fragments_counterexample:
  \<open>fst (generate_response
          (\<lambda>req. Returns (Some (Response (Attr (Some
             [Candidate (Attr (Some (Content (Attr (Some [Part Missing, Part (Attr (Some ''A''))])))))
                (Attr (Some (UrlContextMetadata ''meta'')))])))))
          \<lparr>client = Client ''key'', model_id = ''m'', wiki = ''u'',
          url_context_tool = Tool_url_context, google_search_tool = Tool_google_search,
          conversation_history = []\<rparr> ''hi'' \<lparr>stdout = [], logged = [], network = []\<rparr>) = ''A\<newline>\<newline>[URL Sources: meta]''
   \<and> fst (generate_response
          (\<lambda>req. Returns (Some (Response (Attr (Some
             [Candidate (Attr (Some (Content (Attr (Some [Part Missing, Part (Attr (Some ''A''))])))))
                (Attr (Some (UrlContextMetadata ''meta'')))])))))
          \<lparr>client = Client ''key'', model_id = ''m'', wiki = ''u'',
          url_context_tool = Tool_url_context, google_search_tool = Tool_google_search,
          conversation_history = []\<rparr> ''hi'' \<lparr>stdout = [], logged = [], network = []\<rparr>) \<noteq> concat (map (\<lambda>q. case q of Part (Attr (Some t)) \<Rightarrow> t | _ \<Rightarrow> []) [Part Missing, Part (Attr (Some ''A''))])
   \<and> generate_response
          (\<lambda>req. Returns (Some (Response (Attr (Some
             [Candidate (Attr (Some (Content (Attr (Some [Part Missing, Part (Attr None)])))))
                Missing])))))
          \<lparr>client = Client ''key'', model_id = ''m'', wiki = ''u'',
          url_context_tool = Tool_url_context, google_search_tool = Tool_google_search,
          conversation_history = []\<rparr> ''hi''
          \<lparr>stdout = [], logged = [], network = []\<rparr> =
       (''Error generating response: can only concatenate str (not "NoneType") to str'',
        \<lparr>client = Client ''key'', model_id = ''m'', wiki = ''u'',
          url_context_tool = Tool_url_context, google_search_tool = Tool_google_search,
          conversation_history = []\<rparr>\<lparr>conversation_history := [\<lparr>role = ''user'', parts = [Text ''hi'']\<rparr>]\<rparr>,
        \<lparr>stdout = [],
          logged = [(INFO, ''Sending request to Gemini API...''),
                    (INFO, ''Response received from Gemini API''),
                    (ERROR, ''Error generating response: can only concatenate str (not "NoneType") to str'')],
          network = [request_of (\<lparr>client = Client ''key'', model_id = ''m'', wiki = ''u'',
          url_context_tool = Tool_url_context, google_search_tool = Tool_google_search,
          conversation_history = []\<rparr>\<lparr>conversation_history :=
                          [\<lparr>role = ''user'', parts = [Text ''hi'']\<rparr>]\<rparr>)]\<rparr>)\<close>
  by (simp add: generate_response_def generate_response_try_def generate_content_def
        process_response_def add_user_message_def add_model_message_def request_of_def
        logger_info_def logger_error_def url_sources_def Let_def)

subsection \<open>The citation block\<close>

text \<open>
  Claim C6. On a successful call whose first candidate carries URL-context metadata
  \<open>m\<close>, the model turn stored in the history holds the extracted text \<open>t\<close> alone, and the
  returned string is \<open>t\<close> followed by the citation block
  \<^verbatim>\<open>"\n\n[URL Sources: m]"\<close>: the block is in the returned string only.
\<close>

theorem citation_only_in_returned_string:
  fixes self :: agent and x :: string
  defines "self1 \<equiv> self\<lparr>conversation_history :=
                          conversation_history self @ [\<lparr>role = ''user'', parts = [Text x]\<rparr>]\<rparr>"
  assumes returns: "provider (request_of self1) =
      Returns (Some (Response (Attr (Some
        (Candidate (Attr (Some (Content (Attr (Some (p # ps))))))
           (Attr (Some (UrlContextMetadata m))) # cands)))))"
    and extracted: "extract_text [] (p # ps) = Inr t"
  shows "case generate_response provider self x w of
           (r, self2, w2) \<Rightarrow>
             last (conversation_history self2) = \<lparr>role = ''model'', parts = [Text t]\<rparr>
           \<and> r = t @ url_sources m
           \<and> url_sources m = ''\<newline>\<newline>[URL Sources: '' @ m @ '']''
           \<and> r \<noteq> t"
proof -
  have s1: "snd (add_user_message self x) = self1"
    by (simp add: add_user_message_snd self1_def)
  show ?thesis
    using returns extracted
    by (simp add: generate_response_returns s1 process_response_success url_sources_def)
qed

theorem citation_only_in_returned_string_witness:
  "case generate_response
          (\<lambda>req. Returns (Some (Response (Attr (Some
             [Candidate (Attr (Some (Content (Attr (Some [Part (Attr (Some ''See the wiki.''))])))))
                (Attr (Some (UrlContextMetadata ''meta'')))])))))
          \<lparr>client = Client ''key'', model_id = ''m'', wiki = ''u'',
          url_context_tool = Tool_url_context, google_search_tool = Tool_google_search,
          conversation_history = []\<rparr> ''hi'' \<lparr>stdout = [], logged = [], network = []\<rparr> of
     (r, self2, w2) \<Rightarrow>
       last (conversation_history self2) = \<lparr>role = ''model'', parts = [Text ''See the wiki.'']\<rparr>
     \<and> r = ''See the wiki.\<newline>\<newline>[URL Sources: meta]''"
  using citation_only_in_returned_string
      [of "\<lambda>req. Returns (Some (Response (Attr (Some
             [Candidate (Attr (Some (Content (Attr (Some [Part (Attr (Some ''See the wiki.''))])))))
                (Attr (Some (UrlContextMetadata ''meta'')))]))))"
          "\<lparr>client = Client ''key'', model_id = ''m'', wiki = ''u'',
          url_context_tool = Tool_url_context, google_search_tool = Tool_google_search,
          conversation_history = []\<rparr>" "''hi''" "Part (Attr (Some ''See the wiki.''))" "[]" "''meta''" "[]"
          "''See the wiki.''" "\<lparr>stdout = [], logged = [], network = []\<rparr>"]
  by (simp add: url_sources_def split: prod.splits)

subsection \<open>Construction of the agent\<close>

text \<open>
  Claim C5. With a credential, the constructor returns an agent whose history has
  exactly two entries: the user turn with the static instruction block, then the model
  turn with the static acknowledgement. The world is returned as it was given: nothing is
  sent on the network, logged or printed during the construction.
\<close>

theorem initialize_bootstrap_pair:
  assumes "key \<noteq> []"
  shows "\<exists>self. init (Some key) w = (Inr self, w)
           \<and> conversation_history self =
               [\<lparr>role = ''user'', parts = [Text (initial_instructions (wiki self))]\<rparr>,
                \<lparr>role = ''model'', parts = [Text acknowledgement]\<rparr>]
           \<and> wiki self = ''https://pd2reawakening.com/wiki/index.php?title=Main_Page''
           \<and> length (conversation_history self) = 2"
  using assms
  by (simp add: init_def add_user_message_def add_model_message_def Let_def)

theorem initialize_bootstrap_pair_witness:
  "\<exists>self. init (Some ''key'') \<lparr>stdout = [], logged = [], network = []\<rparr> = (Inr self, \<lparr>stdout = [], logged = [], network = []\<rparr>)
           \<and> conversation_history self =
               [\<lparr>role = ''user'', parts = [Text (initial_instructions (wiki self))]\<rparr>,
                \<lparr>role = ''model'', parts = [Text acknowledgement]\<rparr>]
           \<and> wiki self = ''https://pd2reawakening.com/wiki/index.php?title=Main_Page''
           \<and> length (conversation_history self) = 2"
  using initialize_bootstrap_pair [of "''key''" "\<lparr>stdout = [], logged = [], network = []\<rparr>"]
  by simp

text \<open>
  Claim C8. Without a credential (\<^verbatim>\<open>API_KEY\<close> is \<^verbatim>\<open>None\<close> or the empty string) the
  constructor raises the \<^verbatim>\<open>ValueError\<close> after one error record of the logger and before
  anything else: no agent and no history exist, and nothing goes on the network.
  \<^verbatim>\<open>main\<close> prints the banner, then the error once and the hint, reads no line of the
  input and returns: the loop is never entered.
\<close>

theorem missing_credential_is_fatal:
  assumes absent: "API_KEY = None \<or> API_KEY = Some []"
  shows "init API_KEY w =
           (Inl (ValueError ''GOOGLE_API_KEY not found. Please set it in your .env file.''),
            w\<lparr>logged := logged w @ [(ERROR, ''GOOGLE_API_KEY not found in environment variables.'')]\<rparr>)
       \<and> main API_KEY provider stdin w =
           (None,
            w\<lparr>stdout := stdout w @
                 [''Welcome to the Project Diablo 2 Chat Assistant!\<newline>'',
                  ''Type 'exit' or 'quit' to end the conversation.\<newline>'',
                  replicate 50 CHR ''-'' @ ''\<newline>'',
                  ''Tip: You can provide character URLs or guide URLs in your messages.\<newline>'',
                  replicate 50 CHR ''-'' @ ''\<newline>'',
                  ''Error: GOOGLE_API_KEY not found. Please set it in your .env file.\<newline>'',
                  ''Please set up your GOOGLE_API_KEY in the .env file.\<newline>''],
              logged := logged w @ [(ERROR, ''GOOGLE_API_KEY not found in environment variables.'')]\<rparr>,
            stdin)
       \<and> network (fst (snd (main API_KEY provider stdin w))) = network w
       \<and> fst (script API_KEY provider stdin w) = 0"
proof -
  have i: "init API_KEY w =
           (Inl (ValueError ''GOOGLE_API_KEY not found. Please set it in your .env file.''),
            w\<lparr>logged := logged w @ [(ERROR, ''GOOGLE_API_KEY not found in environment variables.'')]\<rparr>)"
    for w
    using absent by (auto simp add: init_def logger_error_def)
  have m: "main API_KEY provider stdin w =
           (None,
            w\<lparr>stdout := stdout w @
                 [''Welcome to the Project Diablo 2 Chat Assistant!\<newline>'',
                  ''Type 'exit' or 'quit' to end the conversation.\<newline>'',
                  replicate 50 CHR ''-'' @ ''\<newline>'',
                  ''Tip: You can provide character URLs or guide URLs in your messages.\<newline>'',
                  replicate 50 CHR ''-'' @ ''\<newline>'',
                  ''Error: GOOGLE_API_KEY not found. Please set it in your .env file.\<newline>'',
                  ''Please set up your GOOGLE_API_KEY in the .env file.\<newline>''],
              logged := logged w @ [(ERROR, ''GOOGLE_API_KEY not found in environment variables.'')]\<rparr>,
            stdin)"
    unfolding main_def Let_def i
    by (simp add: main_except_def print_line_def)
  show ?thesis
    using i [of w] m by (simp add: script_def)
qed

theorem missing_credential_is_fatal_witness:
  "main None (\<lambda>req. Returns None) [''hello'', ''exit''] \<lparr>stdout = [], logged = [], network = []\<rparr> =
           (None,
            \<lparr>stdout =
                 [''Welcome to the Project Diablo 2 Chat Assistant!\<newline>'',
                  ''Type 'exit' or 'quit' to end the conversation.\<newline>'',
                  replicate 50 CHR ''-'' @ ''\<newline>'',
                  ''Tip: You can provide character URLs or guide URLs in your messages.\<newline>'',
                  replicate 50 CHR ''-'' @ ''\<newline>'',
                  ''Error: GOOGLE_API_KEY not found. Please set it in your .env file.\<newline>'',
                  ''Please set up your GOOGLE_API_KEY in the .env file.\<newline>''],
              logged = [(ERROR, ''GOOGLE_API_KEY not found in environment variables.'')],
              network = []\<rparr>,
            [''hello'', ''exit''])
   \<and> fst (main (Some []) (\<lambda>req. Returns None) [''hello'', ''exit''] \<lparr>stdout = [], logged = [], network = []\<rparr>) = None"
  using missing_credential_is_fatal [of None "\<lparr>stdout = [], logged = [], network = []\<rparr>" "\<lambda>req. Returns None" "[''hello'', ''exit'']"]
    missing_credential_is_fatal [of "Some []" "\<lparr>stdout = [], logged = [], network = []\<rparr>" "\<lambda>req. Returns None" "[''hello'', ''exit'']"]
  by simp

subsection \<open>The history only grows\<close>

text \<open>
  Claim C9. Over any sequence of calls, whatever the provider does at each, the
  history after the calls is the history before them followed by one block per call, in
  the order of the calls: the user turn of the call, and after it at most one model turn.
  So the length only grows, by at least one per call, and the entries that were there
  stay where they were, unchanged. A single call that fails (it logs an error) appends
  the user turn and nothing else; a call that does not fail appends the user turn and one
  model turn. After the constructor, the first two entries are the bootstrap pair and
  stay so, and what follows them is the blocks of the calls: the pair is not appended
  again.
\<close>

theorem transcript_append_only:
  "(case generate_responses provider self xs w of
      (rs, self2, w2) \<Rightarrow>
        (\<exists>ts. length ts = length xs \<and>
           conversation_history self2 =
             conversation_history self @ concat (map (\<lambda>(x, t). \<lparr>role = ''user'', parts = [Text x]\<rparr> #
                              (case t of None \<Rightarrow> []
                               | Some t' \<Rightarrow> [\<lparr>role = ''model'', parts = [Text t']\<rparr>])) (zip xs ts)))
        \<and> length (conversation_history self) + length xs \<le> length (conversation_history self2)
        \<and> take (length (conversation_history self)) (conversation_history self2) =
            conversation_history self)
   \<and> (case generate_response provider self x w of
        (r, self2, w2) \<Rightarrow>
          (if ERROR \<in> fst ` set (drop (length (logged w)) (logged w2))
           then conversation_history self2 =
                  conversation_history self @ [\<lparr>role = ''user'', parts = [Text x]\<rparr>]
           else (\<exists>t. conversation_history self2 =
                  conversation_history self @
                    [\<lparr>role = ''user'', parts = [Text x]\<rparr>, \<lparr>role = ''model'', parts = [Text t]\<rparr>])))
   \<and> (key \<noteq> [] \<longrightarrow>
        (case init (Some key) w of
           (Inl e, w1) \<Rightarrow> False
         | (Inr self0, w1) \<Rightarrow>
             (case generate_responses provider self0 xs w1 of
                (rs, self2, w2) \<Rightarrow>
                  take 2 (conversation_history self2) =
                    [\<lparr>role = ''user'', parts = [Text (initial_instructions (wiki self0))]\<rparr>,
                     \<lparr>role = ''model'', parts = [Text acknowledgement]\<rparr>]
                \<and> (\<exists>ts. length ts = length xs \<and>
                      drop 2 (conversation_history self2) = concat (map (\<lambda>(x, t). \<lparr>role = ''user'', parts = [Text x]\<rparr> #
                              (case t of None \<Rightarrow> []
                               | Some t' \<Rightarrow> [\<lparr>role = ''model'', parts = [Text t']\<rparr>])) (zip xs ts))))))"
proof -
  have session: "\<And>a v. case generate_responses provider a xs v of
      (rs, self2, w2) \<Rightarrow>
        (\<exists>ts. length ts = length xs \<and>
           conversation_history self2 =
             conversation_history a @ concat (map (\<lambda>(x, t). \<lparr>role = ''user'', parts = [Text x]\<rparr> #
                              (case t of None \<Rightarrow> []
                               | Some t' \<Rightarrow> [\<lparr>role = ''model'', parts = [Text t']\<rparr>])) (zip xs ts)))"
  proof -
    fix a v
    show "case generate_responses provider a xs v of
      (rs, self2, w2) \<Rightarrow>
        (\<exists>ts. length ts = length xs \<and>
           conversation_history self2 =
             conversation_history a @ concat (map (\<lambda>(x, t). \<lparr>role = ''user'', parts = [Text x]\<rparr> #
                              (case t of None \<Rightarrow> []
                               | Some t' \<Rightarrow> [\<lparr>role = ''model'', parts = [Text t']\<rparr>])) (zip xs ts)))"
      using generate_responses_history [where provider = provider and self = a and xs = xs and w = v]
      by (auto split: prod.splits)
  qed
  have A: "case generate_responses provider self xs w of
      (rs, self2, w2) \<Rightarrow>
        (\<exists>ts. length ts = length xs \<and>
           conversation_history self2 =
             conversation_history self @ concat (map (\<lambda>(x, t). \<lparr>role = ''user'', parts = [Text x]\<rparr> #
                              (case t of None \<Rightarrow> []
                               | Some t' \<Rightarrow> [\<lparr>role = ''model'', parts = [Text t']\<rparr>])) (zip xs ts)))
        \<and> length (conversation_history self) + length xs \<le> length (conversation_history self2)
        \<and> take (length (conversation_history self)) (conversation_history self2) =
            conversation_history self"
    using session [of self w] length_blocks [of _ xs]
    by (auto split: prod.splits)
  have B: "case generate_response provider self x w of
        (r, self2, w2) \<Rightarrow>
          (if ERROR \<in> fst ` set (drop (length (logged w)) (logged w2))
           then conversation_history self2 =
                  conversation_history self @ [\<lparr>role = ''user'', parts = [Text x]\<rparr>]
           else (\<exists>t. conversation_history self2 =
                  conversation_history self @
                    [\<lparr>role = ''user'', parts = [Text x]\<rparr>, \<lparr>role = ''model'', parts = [Text t]\<rparr>]))"
    using generate_response_history [where provider = provider and self = self and x = x and w = w]
    by (auto split: prod.splits if_splits)
  have C: "key \<noteq> [] \<longrightarrow>
        (case init (Some key) w of
           (Inl e, w1) \<Rightarrow> False
         | (Inr self0, w1) \<Rightarrow>
             (case generate_responses provider self0 xs w1 of
                (rs, self2, w2) \<Rightarrow>
                  take 2 (conversation_history self2) =
                    [\<lparr>role = ''user'', parts = [Text (initial_instructions (wiki self0))]\<rparr>,
                     \<lparr>role = ''model'', parts = [Text acknowledgement]\<rparr>]
                \<and> (\<exists>ts. length ts = length xs \<and>
                      drop 2 (conversation_history self2) = concat (map (\<lambda>(x, t). \<lparr>role = ''user'', parts = [Text x]\<rparr> #
                              (case t of None \<Rightarrow> []
                               | Some t' \<Rightarrow> [\<lparr>role = ''model'', parts = [Text t']\<rparr>])) (zip xs ts)))))"
  proof
    assume key: "key \<noteq> []"
    obtain self0 where i: "init (Some key) w = (Inr self0, w)"
      and h: "conversation_history self0 =
               [\<lparr>role = ''user'', parts = [Text (initial_instructions (wiki self0))]\<rparr>,
                \<lparr>role = ''model'', parts = [Text acknowledgement]\<rparr>]"
      using key by (simp add: init_def add_user_message_def add_model_message_def Let_def)
    show "case init (Some key) w of
           (Inl e, w1) \<Rightarrow> False
         | (Inr self0, w1) \<Rightarrow>
             (case generate_responses provider self0 xs w1 of
                (rs, self2, w2) \<Rightarrow>
                  take 2 (conversation_history self2) =
                    [\<lparr>role = ''user'', parts = [Text (initial_instructions (wiki self0))]\<rparr>,
                     \<lparr>role = ''model'', parts = [Text acknowledgement]\<rparr>]
                \<and> (\<exists>ts. length ts = length xs \<and>
                      drop 2 (conversation_history self2) = concat (map (\<lambda>(x, t). \<lparr>role = ''user'', parts = [Text x]\<rparr> #
                              (case t of None \<Rightarrow> []
                               | Some t' \<Rightarrow> [\<lparr>role = ''model'', parts = [Text t']\<rparr>])) (zip xs ts))))"
      unfolding i using session [of self0 w] h
      by (auto split: prod.splits)
  qed
  from A B C show ?thesis by blast
qed

text \<open>
  A session of two calls in which the provider fails at the first and answers at the
  second; and the same two calls after the constructor.
\<close>

theorem transcript_append_only_witness:
  "conversation_history (fst (snd (generate_responses (\<lambda>req. if length (contents req) = 1 then Raises (OtherException ''down'')
                   else Returns (Some (Response (Attr (Some
                     [Candidate (Attr (Some (Content (Attr (Some [Part (Attr (Some ''ok''))]))))) Missing]))))) \<lparr>client = Client ''key'', model_id = ''m'', wiki = ''u'',
          url_context_tool = Tool_url_context, google_search_tool = Tool_google_search,
          conversation_history = []\<rparr> [''a'', ''b''] \<lparr>stdout = [], logged = [], network = []\<rparr>))) =
     [\<lparr>role = ''user'', parts = [Text ''a'']\<rparr>,
      \<lparr>role = ''user'', parts = [Text ''b'']\<rparr>,
      \<lparr>role = ''model'', parts = [Text ''ok'']\<rparr>]
   \<and> conversation_history (fst (snd (generate_response (\<lambda>req. if length (contents req) = 1 then Raises (OtherException ''down'')
                   else Returns (Some (Response (Attr (Some
                     [Candidate (Attr (Some (Content (Attr (Some [Part (Attr (Some ''ok''))]))))) Missing]))))) \<lparr>client = Client ''key'', model_id = ''m'', wiki = ''u'',
          url_context_tool = Tool_url_context, google_search_tool = Tool_google_search,
          conversation_history = []\<rparr> ''a'' \<lparr>stdout = [], logged = [], network = []\<rparr>))) =
       [\<lparr>role = ''user'', parts = [Text ''a'']\<rparr>]
   \<and> (case init (Some ''key'') \<lparr>stdout = [], logged = [], network = []\<rparr> of
         (Inl e, w1) \<Rightarrow> False
       | (Inr self0, w1) \<Rightarrow>
           take 2 (conversation_history (fst (snd (generate_responses (\<lambda>req. if length (contents req) = 1 then Raises (OtherException ''down'')
                   else Returns (Some (Response (Attr (Some
                     [Candidate (Attr (Some (Content (Attr (Some [Part (Attr (Some ''ok''))]))))) Missing]))))) self0 [''a'', ''b''] w1)))) =
             [\<lparr>role = ''user'', parts = [Text (initial_instructions (wiki self0))]\<rparr>,
              \<lparr>role = ''model'', parts = [Text acknowledgement]\<rparr>])"
proof -
  have run: "conversation_history (fst (snd (generate_responses (\<lambda>req. if length (contents req) = 1 then Raises (OtherException ''down'')
                   else Returns (Some (Response (Attr (Some
                     [Candidate (Attr (Some (Content (Attr (Some [Part (Attr (Some ''ok''))]))))) Missing]))))) \<lparr>client = Client ''key'', model_id = ''m'', wiki = ''u'',
          url_context_tool = Tool_url_context, google_search_tool = Tool_google_search,
          conversation_history = []\<rparr> [''a'', ''b''] \<lparr>stdout = [], logged = [], network = []\<rparr>))) =
     [\<lparr>role = ''user'', parts = [Text ''a'']\<rparr>,
      \<lparr>role = ''user'', parts = [Text ''b'']\<rparr>,
      \<lparr>role = ''model'', parts = [Text ''ok'']\<rparr>]"
    by (simp add: generate_response_def generate_response_try_def generate_content_def
        process_response_def add_user_message_def add_model_message_def request_of_def
        logger_info_def logger_error_def Let_def)
  have one: "conversation_history (fst (snd (generate_response (\<lambda>req. if length (contents req) = 1 then Raises (OtherException ''down'')
                   else Returns (Some (Response (Attr (Some
                     [Candidate (Attr (Some (Content (Attr (Some [Part (Attr (Some ''ok''))]))))) Missing]))))) \<lparr>client = Client ''key'', model_id = ''m'', wiki = ''u'',
          url_context_tool = Tool_url_context, google_search_tool = Tool_google_search,
          conversation_history = []\<rparr> ''a'' \<lparr>stdout = [], logged = [], network = []\<rparr>))) =
       [\<lparr>role = ''user'', parts = [Text ''a'']\<rparr>]"
    by (simp add: generate_response_def generate_response_try_def generate_content_def
        add_user_message_def request_of_def logger_info_def logger_error_def Let_def)
  have boot: "case init (Some ''key'') \<lparr>stdout = [], logged = [], network = []\<rparr> of
         (Inl e, w1) \<Rightarrow> False
       | (Inr self0, w1) \<Rightarrow>
           take 2 (conversation_history (fst (snd (generate_responses (\<lambda>req. if length (contents req) = 1 then Raises (OtherException ''down'')
                   else Returns (Some (Response (Attr (Some
                     [Candidate (Attr (Some (Content (Attr (Some [Part (Attr (Some ''ok''))]))))) Missing]))))) self0 [''a'', ''b''] w1)))) =
             [\<lparr>role = ''user'', parts = [Text (initial_instructions (wiki self0))]\<rparr>,
              \<lparr>role = ''model'', parts = [Text acknowledgement]\<rparr>]"
    using transcript_append_only
      [where provider = "(\<lambda>req. if length (contents req) = 1 then Raises (OtherException ''down'')
                   else Returns (Some (Response (Attr (Some
                     [Candidate (Attr (Some (Content (Attr (Some [Part (Attr (Some ''ok''))]))))) Missing])))))" and key = "''key''" and xs = "[''a'', ''b'']" and w = "\<lparr>stdout = [], logged = [], network = []\<rparr>"]
    by (auto split: prod.splits sum.splits)
  from run one boot show ?thesis by blast
qed

subsection \<open>The loop of \<^verbatim>\<open>main\<close>\<close>

text \<open>
  Claim C7, as amended. For every line that the loop reads: the line is stripped of
  the whitespace around it; if the lower-cased result is \<open>exit\<close>, \<open>quit\<close> or \<open>bye\<close>, the
  loop prints the farewell and ends without a call of \<^verbatim>\<open>generate_response\<close>, leaving the
  rest of the input unread; every other line, the empty one included, is submitted in
  its stripped form as a user turn, the returned string is printed, and the loop goes on
  with the next line. Over the whole input, the user turns appended are the stripped
  lines before the first exit token, in order; the loop ends normally exactly when the
  input holds an exit token, and then the farewell is its last output. A run of the
  script with a credential on an input that holds an exit token ends with the farewell
  as its last output and with exit status 0.
\<close>

theorem cli_loop_submits_every_other_line:
  "(lower (strip line) \<in> set [''exit'', ''quit'', ''bye''] \<longrightarrow>
      conversation_loop provider (line # rest) self w =
        (Inr (), self, w\<lparr>stdout := stdout w @ [''\<newline>You: '', ''\<newline>Assistant: Thanks for chatting! Good luck in your adventures!\<newline>'']\<rparr>, rest))
   \<and> (lower (strip line) \<notin> set [''exit'', ''quit'', ''bye''] \<longrightarrow>
      (case generate_response provider self (strip line)
              (w\<lparr>stdout := stdout w @ [''\<newline>You: '', ''\<newline>Assistant: '']\<rparr>) of
         (r, self1, w1) \<Rightarrow>
           conversation_loop provider (line # rest) self w =
             conversation_loop provider rest self1 (w1\<lparr>stdout := stdout w1 @ [r @ ''\<newline>'']\<rparr>)
         \<and> conversation_history self1 ! length (conversation_history self) =
             \<lparr>role = ''user'', parts = [Text (strip line)]\<rparr>))
   \<and> (case conversation_loop provider lines self w of
        (res, self2, w2, unread) \<Rightarrow>
          (\<exists>ext. conversation_history self2 = conversation_history self @ ext \<and>
                 filter (\<lambda>m. role m = ''user'') ext = map (\<lambda>l. \<lparr>role = ''user'', parts = [Text (strip l)]\<rparr>) (takeWhile (\<lambda>l. lower (strip l) \<notin> set [''exit'', ''quit'', ''bye'']) lines))
        \<and> unread = drop (Suc (length (takeWhile (\<lambda>l. lower (strip l) \<notin> set [''exit'', ''quit'', ''bye'']) lines))) lines
        \<and> (res = Inr () \<longleftrightarrow> (\<exists>l \<in> set lines. lower (strip l) \<in> set [''exit'', ''quit'', ''bye'']))
        \<and> (res = Inr () \<longrightarrow> last (stdout w2) = ''\<newline>Assistant: Thanks for chatting! Good luck in your adventures!\<newline>''))
   \<and> (key \<noteq> [] \<and> (\<exists>l \<in> set lines. lower (strip l) \<in> set [''exit'', ''quit'', ''bye'']) \<longrightarrow>
        (case script (Some key) provider lines w of
           (status, w2) \<Rightarrow> status = 0 \<and> last (stdout w2) = ''\<newline>Assistant: Thanks for chatting! Good luck in your adventures!\<newline>''))"
proof -
  have exit_line: "lower (strip line) \<in> set [''exit'', ''quit'', ''bye''] \<longrightarrow>
      conversation_loop provider (line # rest) self w =
        (Inr (), self, w\<lparr>stdout := stdout w @ [''\<newline>You: '', ''\<newline>Assistant: Thanks for chatting! Good luck in your adventures!\<newline>'']\<rparr>, rest)"
    using conversation_loop_exit [of line provider rest self w] by blast
  have other_line: "lower (strip line) \<notin> set [''exit'', ''quit'', ''bye''] \<longrightarrow>
      (case generate_response provider self (strip line)
              (w\<lparr>stdout := stdout w @ [''\<newline>You: '', ''\<newline>Assistant: '']\<rparr>) of
         (r, self1, w1) \<Rightarrow>
           conversation_loop provider (line # rest) self w =
             conversation_loop provider rest self1 (w1\<lparr>stdout := stdout w1 @ [r @ ''\<newline>'']\<rparr>)
         \<and> conversation_history self1 ! length (conversation_history self) =
             \<lparr>role = ''user'', parts = [Text (strip line)]\<rparr>)"
  proof
    assume other: "lower (strip line) \<notin> set [''exit'', ''quit'', ''bye'']"
    obtain r self1 w1 where g: "generate_response provider self (strip line)
        (w\<lparr>stdout := stdout w @ [''\<newline>You: '', ''\<newline>Assistant: '']\<rparr>) = (r, self1, w1)"
      by (cases "generate_response provider self (strip line)
        (w\<lparr>stdout := stdout w @ [''\<newline>You: '', ''\<newline>Assistant: '']\<rparr>)") auto
    have step: "conversation_loop provider (line # rest) self w =
        conversation_loop provider rest self1 (w1\<lparr>stdout := stdout w1 @ [r @ ''\<newline>'']\<rparr>)"
      using other g by (rule conversation_loop_submit)
    from generate_response_history
      [where provider = provider and self = self and x = "strip line"
         and w = "w\<lparr>stdout := stdout w @ [''\<newline>You: '', ''\<newline>Assistant: '']\<rparr>"] g
    have "conversation_history self1 ! length (conversation_history self) =
             \<lparr>role = ''user'', parts = [Text (strip line)]\<rparr>"
      by (auto split: if_splits)
    with step show "case generate_response provider self (strip line)
              (w\<lparr>stdout := stdout w @ [''\<newline>You: '', ''\<newline>Assistant: '']\<rparr>) of
         (r, self1, w1) \<Rightarrow>
           conversation_loop provider (line # rest) self w =
             conversation_loop provider rest self1 (w1\<lparr>stdout := stdout w1 @ [r @ ''\<newline>'']\<rparr>)
         \<and> conversation_history self1 ! length (conversation_history self) =
             \<lparr>role = ''user'', parts = [Text (strip line)]\<rparr>"
      unfolding g by simp
  qed
  have status: "key \<noteq> [] \<and> (\<exists>l \<in> set lines. lower (strip l) \<in> set [''exit'', ''quit'', ''bye'']) \<longrightarrow>
        (case script (Some key) provider lines w of
           (status, w2) \<Rightarrow> status = 0 \<and> last (stdout w2) = ''\<newline>Assistant: Thanks for chatting! Good luck in your adventures!\<newline>'')"
  proof
    assume "key \<noteq> [] \<and> (\<exists>l \<in> set lines. lower (strip l) \<in> set [''exit'', ''quit'', ''bye''])"
    then have "last (stdout (fst (snd (main (Some key) provider lines w)))) = ''\<newline>Assistant: Thanks for chatting! Good luck in your adventures!\<newline>''"
      using main_ends_with_farewell [of key lines provider w] by blast
    then show "case script (Some key) provider lines w of
           (status, w2) \<Rightarrow> status = 0 \<and> last (stdout w2) = ''\<newline>Assistant: Thanks for chatting! Good luck in your adventures!\<newline>''"
      by (auto simp add: script_def split: prod.splits)
  qed
  from exit_line other_line status
    conversation_loop_history [where provider = provider and lines = lines and self = self and w = w]
  show ?thesis by blast
qed

text \<open>
  Three inputs: a farewell with spaces around it; one with no-break spaces (U+00A0)
  around it; a message followed by a farewell, with the provider failing; and a run of
  the script on the last.
\<close>

theorem cli_loop_submits_every_other_line_witness:
  "conversation_loop (\<lambda>req. Raises (OtherException ''down'')) ['' Bye '', ''later''] \<lparr>client = Client ''key'', model_id = ''m'', wiki = ''u'',
          url_context_tool = Tool_url_context, google_search_tool = Tool_google_search,
          conversation_history = []\<rparr> \<lparr>stdout = [], logged = [], network = []\<rparr> =
     (Inr (), \<lparr>client = Client ''key'', model_id = ''m'', wiki = ''u'',
          url_context_tool = Tool_url_context, google_search_tool = Tool_google_search,
          conversation_history = []\<rparr>,
      \<lparr>stdout = [''\<newline>You: '', ''\<newline>Assistant: Thanks for chatting! Good luck in your adventures!\<newline>''], logged = [], network = []\<rparr>,
      [''later''])
   \<and> conversation_loop (\<lambda>req. Raises (OtherException ''down''))
        [[CHR 0xC2, CHR 0xA0] @ ''exit'' @ [CHR 0xC2, CHR 0xA0], ''later''] \<lparr>client = Client ''key'', model_id = ''m'', wiki = ''u'',
          url_context_tool = Tool_url_context, google_search_tool = Tool_google_search,
          conversation_history = []\<rparr> \<lparr>stdout = [], logged = [], network = []\<rparr> =
     (Inr (), \<lparr>client = Client ''key'', model_id = ''m'', wiki = ''u'',
          url_context_tool = Tool_url_context, google_search_tool = Tool_google_search,
          conversation_history = []\<rparr>,
      \<lparr>stdout = [''\<newline>You: '', ''\<newline>Assistant: Thanks for chatting! Good luck in your adventures!\<newline>''], logged = [], network = []\<rparr>,
      [''later''])
   \<and> conversation_history (fst (snd
        (conversation_loop (\<lambda>req. Raises (OtherException ''down'')) ['' hello '', ''QUIT''] \<lparr>client = Client ''key'', model_id = ''m'', wiki = ''u'',
          url_context_tool = Tool_url_context, google_search_tool = Tool_google_search,
          conversation_history = []\<rparr> \<lparr>stdout = [], logged = [], network = []\<rparr>))) =
       [\<lparr>role = ''user'', parts = [Text ''hello'']\<rparr>]
   \<and> stdout (fst (snd (snd
        (conversation_loop (\<lambda>req. Raises (OtherException ''down'')) ['' hello '', ''QUIT''] \<lparr>client = Client ''key'', model_id = ''m'', wiki = ''u'',
          url_context_tool = Tool_url_context, google_search_tool = Tool_google_search,
          conversation_history = []\<rparr> \<lparr>stdout = [], logged = [], network = []\<rparr>)))) =
       [''\<newline>You: '', ''\<newline>Assistant: '', ''Error generating response: down\<newline>'',
        ''\<newline>You: '', ''\<newline>Assistant: Thanks for chatting! Good luck in your adventures!\<newline>'']
   \<and> (case script (Some ''key'') (\<lambda>req. Raises (OtherException ''down'')) ['' hello '', ''QUIT'']
              \<lparr>stdout = [], logged = [], network = []\<rparr> of
         (status, w2) \<Rightarrow> status = 0 \<and> last (stdout w2) = ''\<newline>Assistant: Thanks for chatting! Good luck in your adventures!\<newline>'')"
proof -
  have bye: "lower (strip '' Bye '') \<in> set [''exit'', ''quit'', ''bye'']"
    by (simp add: lower_def strip_def whitespace_def lower_char_def)
  have nbsp: "lower (strip ([CHR 0xC2, CHR 0xA0] @ ''exit'' @ [CHR 0xC2, CHR 0xA0])) \<in> set [''exit'', ''quit'', ''bye'']"
    by (simp add: lower_def strip_def whitespace_def lower_char_def)
  have quit: "lower (strip ''QUIT'') \<in> set [''exit'', ''quit'', ''bye'']"
    by (simp add: lower_def strip_def whitespace_def lower_char_def)
  have hello: "lower (strip '' hello '') \<notin> set [''exit'', ''quit'', ''bye'']" "strip '' hello '' = ''hello''"
    by (simp_all add: lower_def strip_def whitespace_def lower_char_def)
  have g: "generate_response (\<lambda>req. Raises (OtherException ''down'')) \<lparr>client = Client ''key'', model_id = ''m'', wiki = ''u'',
          url_context_tool = Tool_url_context, google_search_tool = Tool_google_search,
          conversation_history = []\<rparr> ''hello''
             (\<lparr>stdout = [], logged = [], network = []\<rparr>\<lparr>stdout := stdout \<lparr>stdout = [], logged = [], network = []\<rparr> @ [''\<newline>You: '', ''\<newline>Assistant: '']\<rparr>) =
           (''Error generating response: down'',
            \<lparr>client = Client ''key'', model_id = ''m'', wiki = ''u'',
          url_context_tool = Tool_url_context, google_search_tool = Tool_google_search,
          conversation_history = []\<rparr>\<lparr>conversation_history := [\<lparr>role = ''user'', parts = [Text ''hello'']\<rparr>]\<rparr>,
            \<lparr>stdout = [''\<newline>You: '', ''\<newline>Assistant: ''],
             logged = [(INFO, ''Sending request to Gemini API...''),
                       (ERROR, ''Error generating response: down'')],
             network = [request_of (\<lparr>client = Client ''key'', model_id = ''m'', wiki = ''u'',
          url_context_tool = Tool_url_context, google_search_tool = Tool_google_search,
          conversation_history = []\<rparr>\<lparr>conversation_history :=
                          [\<lparr>role = ''user'', parts = [Text ''hello'']\<rparr>]\<rparr>)]\<rparr>)"
    by (simp add: generate_response_raises add_user_message_snd generate_content_def
        logger_info_def logger_error_def)
  have first: "conversation_loop (\<lambda>req. Raises (OtherException ''down'')) ['' Bye '', ''later''] \<lparr>client = Client ''key'', model_id = ''m'', wiki = ''u'',
          url_context_tool = Tool_url_context, google_search_tool = Tool_google_search,
          conversation_history = []\<rparr> \<lparr>stdout = [], logged = [], network = []\<rparr> =
     (Inr (), \<lparr>client = Client ''key'', model_id = ''m'', wiki = ''u'',
          url_context_tool = Tool_url_context, google_search_tool = Tool_google_search,
          conversation_history = []\<rparr>,
      \<lparr>stdout = [''\<newline>You: '', ''\<newline>Assistant: Thanks for chatting! Good luck in your adventures!\<newline>''], logged = [], network = []\<rparr>,
      [''later''])"
    using bye cli_loop_submits_every_other_line
      [where line = "'' Bye ''" and rest = "[''later'']" and self = "\<lparr>client = Client ''key'', model_id = ''m'', wiki = ''u'',
          url_context_tool = Tool_url_context, google_search_tool = Tool_google_search,
          conversation_history = []\<rparr>" and w = "\<lparr>stdout = [], logged = [], network = []\<rparr>"
         and provider = "\<lambda>req. Raises (OtherException ''down'')"]
    by simp
  have first': "conversation_loop (\<lambda>req. Raises (OtherException ''down''))
        [[CHR 0xC2, CHR 0xA0] @ ''exit'' @ [CHR 0xC2, CHR 0xA0], ''later''] \<lparr>client = Client ''key'', model_id = ''m'', wiki = ''u'',
          url_context_tool = Tool_url_context, google_search_tool = Tool_google_search,
          conversation_history = []\<rparr> \<lparr>stdout = [], logged = [], network = []\<rparr> =
     (Inr (), \<lparr>client = Client ''key'', model_id = ''m'', wiki = ''u'',
          url_context_tool = Tool_url_context, google_search_tool = Tool_google_search,
          conversation_history = []\<rparr>,
      \<lparr>stdout = [''\<newline>You: '', ''\<newline>Assistant: Thanks for chatting! Good luck in your adventures!\<newline>''], logged = [], network = []\<rparr>,
      [''later''])"
    using nbsp cli_loop_submits_every_other_line
      [where line = "[CHR 0xC2, CHR 0xA0] @ ''exit'' @ [CHR 0xC2, CHR 0xA0]"
         and rest = "[''later'']" and self = "\<lparr>client = Client ''key'', model_id = ''m'', wiki = ''u'',
          url_context_tool = Tool_url_context, google_search_tool = Tool_google_search,
          conversation_history = []\<rparr>" and w = "\<lparr>stdout = [], logged = [], network = []\<rparr>"
         and provider = "\<lambda>req. Raises (OtherException ''down'')"]
    by simp
  have second: "conversation_loop (\<lambda>req. Raises (OtherException ''down'')) ['' hello '', ''QUIT''] \<lparr>client = Client ''key'', model_id = ''m'', wiki = ''u'',
          url_context_tool = Tool_url_context, google_search_tool = Tool_google_search,
          conversation_history = []\<rparr> \<lparr>stdout = [], logged = [], network = []\<rparr> =
      conversation_loop (\<lambda>req. Raises (OtherException ''down'')) [''QUIT'']
        (\<lparr>client = Client ''key'', model_id = ''m'', wiki = ''u'',
          url_context_tool = Tool_url_context, google_search_tool = Tool_google_search,
          conversation_history = []\<rparr>\<lparr>conversation_history := [\<lparr>role = ''user'', parts = [Text ''hello'']\<rparr>]\<rparr>)
        \<lparr>stdout = [''\<newline>You: '', ''\<newline>Assistant: '', ''Error generating response: down\<newline>''],
          logged = [(INFO, ''Sending request to Gemini API...''),
                    (ERROR, ''Error generating response: down'')],
          network = [request_of (\<lparr>client = Client ''key'', model_id = ''m'', wiki = ''u'',
          url_context_tool = Tool_url_context, google_search_tool = Tool_google_search,
          conversation_history = []\<rparr>\<lparr>conversation_history :=
                          [\<lparr>role = ''user'', parts = [Text ''hello'']\<rparr>]\<rparr>)]\<rparr>"
    using hello g cli_loop_submits_every_other_line
      [where line = "'' hello ''" and rest = "[''QUIT'']" and self = "\<lparr>client = Client ''key'', model_id = ''m'', wiki = ''u'',
          url_context_tool = Tool_url_context, google_search_tool = Tool_google_search,
          conversation_history = []\<rparr>" and w = "\<lparr>stdout = [], logged = [], network = []\<rparr>"
         and provider = "\<lambda>req. Raises (OtherException ''down'')"]
    by simp
  have run: "case script (Some ''key'') (\<lambda>req. Raises (OtherException ''down'')) ['' hello '', ''QUIT'']
              \<lparr>stdout = [], logged = [], network = []\<rparr> of
         (status, w2) \<Rightarrow> status = 0 \<and> last (stdout w2) = ''\<newline>Assistant: Thanks for chatting! Good luck in your adventures!\<newline>''"
    using quit cli_loop_submits_every_other_line
      [where key = "''key''" and lines = "['' hello '', ''QUIT'']" and w = "\<lparr>stdout = [], logged = [], network = []\<rparr>"
         and provider = "\<lambda>req. Raises (OtherException ''down'')"]
    by simp
  have loops: "conversation_history (fst (snd
        (conversation_loop (\<lambda>req. Raises (OtherException ''down'')) ['' hello '', ''QUIT''] \<lparr>client = Client ''key'', model_id = ''m'', wiki = ''u'',
          url_context_tool = Tool_url_context, google_search_tool = Tool_google_search,
          conversation_history = []\<rparr> \<lparr>stdout = [], logged = [], network = []\<rparr>))) =
       [\<lparr>role = ''user'', parts = [Text ''hello'']\<rparr>]
   \<and> stdout (fst (snd (snd
        (conversation_loop (\<lambda>req. Raises (OtherException ''down'')) ['' hello '', ''QUIT''] \<lparr>client = Client ''key'', model_id = ''m'', wiki = ''u'',
          url_context_tool = Tool_url_context, google_search_tool = Tool_google_search,
          conversation_history = []\<rparr> \<lparr>stdout = [], logged = [], network = []\<rparr>)))) =
       [''\<newline>You: '', ''\<newline>Assistant: '', ''Error generating response: down\<newline>'',
        ''\<newline>You: '', ''\<newline>Assistant: Thanks for chatting! Good luck in your adventures!\<newline>'']"
    unfolding second using quit
    by (simp add: conversation_loop_exit del: conversation_loop.simps)
  from first first' loops run show ?thesis by blast
qed

text \<open>
  An empty line is submitted: the loop appends a user turn with the empty text, sends
  the request, and prints what \<^verbatim>\<open>generate_response\<close> returned, before it reads on (here
  into the end of the input). And a line that is not empty and is none of the three
  words, the word \<open>exit\<close> between two spaces, is not submitted: it ends the loop.
\<close>

theorem cli_empty_line_is_submitted:
  "conversation_history (fst (snd
      (conversation_loop (\<lambda>req. Raises (OtherException ''down'')) [''''] \<lparr>client = Client ''key'', model_id = ''m'', wiki = ''u'',
          url_context_tool = Tool_url_context, google_search_tool = Tool_google_search,
          conversation_history = []\<rparr> \<lparr>stdout = [], logged = [], network = []\<rparr>))) =
     [\<lparr>role = ''user'', parts = [Text '''']\<rparr>]
   \<and> map contents (network (fst (snd (snd
      (conversation_loop (\<lambda>req. Raises (OtherException ''down'')) [''''] \<lparr>client = Client ''key'', model_id = ''m'', wiki = ''u'',
          url_context_tool = Tool_url_context, google_search_tool = Tool_google_search,
          conversation_history = []\<rparr> \<lparr>stdout = [], logged = [], network = []\<rparr>))))) =
     [[\<lparr>role = ''user'', parts = [Text '''']\<rparr>]]
   \<and> stdout (fst (snd (snd
      (conversation_loop (\<lambda>req. Raises (OtherException ''down'')) [''''] \<lparr>client = Client ''key'', model_id = ''m'', wiki = ''u'',
          url_context_tool = Tool_url_context, google_search_tool = Tool_google_search,
          conversation_history = []\<rparr> \<lparr>stdout = [], logged = [], network = []\<rparr>)))) =
     [''\<newline>You: '', ''\<newline>Assistant: '', ''Error generating response: down\<newline>'',
      ''\<newline>You: '']
   \<and> '' exit '' \<notin> set [''exit'', ''quit'', ''bye'']
   \<and> conversation_loop (\<lambda>req. Raises (OtherException ''down'')) ['' exit ''] \<lparr>client = Client ''key'', model_id = ''m'', wiki = ''u'',
          url_context_tool = Tool_url_context, google_search_tool = Tool_google_search,
          conversation_history = []\<rparr> \<lparr>stdout = [], logged = [], network = []\<rparr> =
       (Inr (), \<lparr>client = Client ''key'', model_id = ''m'', wiki = ''u'',
          url_context_tool = Tool_url_context, google_search_tool = Tool_google_search,
          conversation_history = []\<rparr>,
        \<lparr>stdout = [''\<newline>You: '', ''\<newline>Assistant: Thanks for chatting! Good luck in your adventures!\<newline>''], logged = [], network = []\<rparr>,
        [])"
  by (simp add: generate_response_def generate_response_try_def generate_content_def
        add_user_message_def request_of_def print_end_def print_line_def
        logger_info_def logger_error_def Let_def lower_def strip_def whitespace_def
        lower_char_def)

end
